theory Spec2Isabelle
  imports Complex_Main "HOL-Library.Sublist"
begin

section \<open>JavaScript values used by chunker.js\<close>

text \<open>
  A JavaScript number is a finite value, \<open>NaN\<close> or one of the two infinities. Finite
  values are taken as exact reals: the rounding of IEEE doubles is not modelled, and
  \<open>-0\<close> is identified with \<open>0\<close> (the two differ only in the sign of a quotient by
  zero, which \<open>validateInput\<close> keeps the program from computing).
\<close>

datatype jsnum = Num real | NaN | PosInf | NegInf

text \<open>The relational operators \<open><\<close> and \<open><=\<close>: every comparison with \<open>NaN\<close> is false.\<close>

fun js_lt :: "jsnum \<Rightarrow> jsnum \<Rightarrow> bool" where
  "js_lt (Num a) (Num b) = (a < b)"
| "js_lt (Num a) PosInf = True"
| "js_lt NegInf (Num b) = True"
| "js_lt NegInf PosInf = True"
| "js_lt _ _ = False"

fun js_le :: "jsnum \<Rightarrow> jsnum \<Rightarrow> bool" where
  "js_le (Num a) (Num b) = (a \<le> b)"
| "js_le NaN _ = False"
| "js_le _ NaN = False"
| "js_le NegInf _ = True"
| "js_le _ PosInf = True"
| "js_le _ _ = False"

text \<open>Truthiness of a number (\<open>!x\<close>, \<open>x || y\<close>): \<open>0\<close> and \<open>NaN\<close> are falsy.\<close>

fun js_truthy :: "jsnum \<Rightarrow> bool" where
  "js_truthy (Num a) = (a \<noteq> 0)"
| "js_truthy NaN = False"
| "js_truthy _ = True"

definition js_or_num :: "jsnum \<Rightarrow> jsnum \<Rightarrow> jsnum" where
  "js_or_num a b = (if js_truthy a then a else b)"

text \<open>\<open>s || d\<close> on a string: the empty string is falsy.\<close>

definition js_or_str :: "string \<Rightarrow> string \<Rightarrow> string" where
  "js_or_str s d = (if s = [] then d else s)"

text \<open>\<open>x || d\<close> on a property that may be absent (\<open>undefined\<close>).\<close>

definition js_or_undef :: "string option \<Rightarrow> string \<Rightarrow> string" where
  "js_or_undef x d = (case x of None \<Rightarrow> d | Some s \<Rightarrow> js_or_str s d)"

text \<open>The sign of a non-\<open>NaN\<close> number, for products and quotients with an infinity.\<close>

fun js_neg :: "jsnum \<Rightarrow> bool" where
  "js_neg (Num a) = (a < 0)"
| "js_neg NegInf = True"
| "js_neg _ = False"

definition signed_inf :: "bool \<Rightarrow> jsnum" where
  "signed_inf neg = (if neg then NegInf else PosInf)"

fun js_div :: "jsnum \<Rightarrow> jsnum \<Rightarrow> jsnum" where
  "js_div NaN _ = NaN"
| "js_div _ NaN = NaN"
| "js_div (Num a) (Num b) =
     (if b \<noteq> 0 then Num (a / b)
      else if a = 0 then NaN
      else signed_inf (a < 0))"
| "js_div (Num a) _ = Num 0"
| "js_div x (Num b) = signed_inf (js_neg x \<noteq> (b < 0))"
| "js_div _ _ = NaN"

fun js_mul :: "jsnum \<Rightarrow> jsnum \<Rightarrow> jsnum" where
  "js_mul NaN _ = NaN"
| "js_mul _ NaN = NaN"
| "js_mul (Num a) (Num b) = Num (a * b)"
| "js_mul (Num a) y = (if a = 0 then NaN else signed_inf ((a < 0) \<noteq> js_neg y))"
| "js_mul x (Num b) = (if b = 0 then NaN else signed_inf (js_neg x \<noteq> (b < 0)))"
| "js_mul x y = signed_inf (js_neg x \<noteq> js_neg y)"

text \<open>\<open>Math.ceil\<close>.\<close>

fun js_ceil :: "jsnum \<Rightarrow> jsnum" where
  "js_ceil (Num a) = Num (of_int \<lceil>a\<rceil>)"
| "js_ceil x = x"

subsection \<open>Strings\<close>

text \<open>
  Strings are byte lists. \<open>parseInt(s, 10)\<close> skips leading white space, reads an
  optional sign and the longest run of decimal digits, and yields \<open>NaN\<close> when that run
  is empty. Two things are narrower here than in JavaScript: only the six ASCII white
  space characters are skipped (JavaScript also skips the Unicode ones, so that a value
  starting with one of those is \<open>NaN\<close> here and a number there), and the digits are
  read as an exact number, not rounded to a double. Wherever JavaScript yields \<open>NaN\<close>,
  so does this function.
\<close>

definition isStrWhiteSpace :: "char \<Rightarrow> bool" where
  "isStrWhiteSpace c = (c \<in> set [CHR '' '', CHR 0x09, CHR 0x0A, CHR 0x0B, CHR 0x0C, CHR 0x0D])"

definition isDigit :: "char \<Rightarrow> bool" where
  "isDigit c = (c \<in> set ''0123456789'')"

definition digitVal :: "char \<Rightarrow> nat" where
  "digitVal c = of_char c - 48"

definition digitsVal :: "string \<Rightarrow> nat" where
  "digitsVal ds = foldl (\<lambda>a c. 10 * a + digitVal c) 0 ds"

definition parseInt :: "string \<Rightarrow> jsnum" where
  "parseInt s =
     (let t = dropWhile isStrWhiteSpace s;
          neg = (t \<noteq> [] \<and> hd t = CHR ''-'');
          u = (if t \<noteq> [] \<and> (hd t = CHR ''-'' \<or> hd t = CHR ''+'') then tl t else t);
          ds = takeWhile isDigit u
      in if ds = [] then NaN
         else Num (if neg then - real (digitsVal ds) else real (digitsVal ds)))"

text \<open>\<open>String(n)\<close> for a non-negative integer: its decimal digits.\<close>

definition digitChar :: "nat \<Rightarrow> char" where
  "digitChar d = ''0123456789'' ! d"

fun decimal :: "nat \<Rightarrow> string" where
  "decimal n = (if n < 10 then [digitChar n] else decimal (n div 10) @ [digitChar (n mod 10)])"

declare decimal.simps [simp del]

text \<open>\<open>s.padStart(n, c)\<close> with a one-character filler.\<close>

definition padStart :: "nat \<Rightarrow> char \<Rightarrow> string \<Rightarrow> string" where
  "padStart n c s = replicate (n - length s) c @ s"

text \<open>\<open>s.includes(sub)\<close>.\<close>

fun js_includes :: "string \<Rightarrow> string \<Rightarrow> bool" where
  "js_includes [] sub = (sub = [])"
| "js_includes (c # cs) sub = (take (length sub) (c # cs) = sub \<or> js_includes cs sub)"

text \<open>\<open>s.toLowerCase()\<close> on ASCII letters.\<close>

definition toLowerCase :: "string \<Rightarrow> string" where
  "toLowerCase s =
     map (\<lambda>c. let n = (of_char c :: nat) in if 65 \<le> n \<and> n \<le> 90 then char_of (n + 32) else c) s"

section \<open>The command line and the environment\<close>

text \<open>
  The options object of the command line parser, as \<open>program.opts()\<close> returns it, and
  the positional argument \<open>program.args[0]\<close>. An absent positional argument is the
  empty string here (both are falsy). The flag \<open>progress\<close> only gates console
  progress lines, which are not modelled.
\<close>

record options =
  inputArg :: string
  directory :: string
  length_opt :: string
  prefix_opt :: string
  quality :: string
  hls :: bool
  hlsSegment :: string
  hlsType :: string
  progress :: bool

text \<open>The module-level constants derived from the options.\<close>

definition inputFile :: "options \<Rightarrow> string" where
  "inputFile opts = inputArg opts"

definition outputDir :: "options \<Rightarrow> string" where
  "outputDir opts = directory opts"

definition chunkLength :: "options \<Rightarrow> jsnum" where
  "chunkLength opts = parseInt (length_opt opts)"

definition filePrefix :: "options \<Rightarrow> string" where
  "filePrefix opts = prefix_opt opts"

definition qualityPreset :: "options \<Rightarrow> string" where
  "qualityPreset opts = quality opts"

text \<open>
  A path is the list of the arguments of \<open>path.join\<close>, in order; the normalisation
  that Node applies to the joined string is left uninterpreted.
\<close>

type_synonym path = "string list"

datatype mode = Copy | Encode | Hls

record outputConfig =
  mode :: mode
  extension :: string
  segmentLength :: "jsnum option"
  playlistType :: "string option"

text \<open>What the interactive prompts of \<open>setupOutput\<close> answer (after their filters).\<close>

record answers =
  ans_mode :: mode
  ans_extension :: string
  ans_custom :: string
  ans_segmentLength :: jsnum
  ans_playlistType :: string

text \<open>
  What \<open>ffprobe\<close> reports: the container's duration and bit rate, and the streams. A
  duration is a number or absent; a probe that reports a non-numeric string for it is
  outside this model.
\<close>

record stream =
  codec_type :: string
  codec_name :: "string option"
  width :: "nat option"
  height :: "nat option"

record ffprobe_data =
  format_duration :: "jsnum option"
  format_bit_rate :: "jsnum option"
  streams :: "stream list"

text \<open>The metadata object of \<open>getVideoMetadata\<close>; \<open>{}\<close> has every property absent.\<close>

record metadata =
  duration :: "jsnum option"
  hasVideo :: "bool option"
  hasAudio :: "bool option"
  videoCodec :: "string option"
  audioCodec :: "string option"
  resolution :: "string option"
  bitrate :: "jsnum option"

definition emptyMetadata :: metadata where
  "emptyMetadata =
     \<lparr>duration = None, hasVideo = None, hasAudio = None, videoCodec = None,
      audioCodec = None, resolution = None, bitrate = None\<rparr>"

text \<open>
  One command handed to the transcoding engine: the input, the seek position and the
  duration limit when set, the output options in order, and the output path.
\<close>

datatype arg = S string | N jsnum | P path | Undefined

record invocation =
  source :: string
  seekInput :: "jsnum option"
  duration_limit :: "jsnum option"
  outputOptions :: "arg list"
  target :: path

text \<open>The engine's completion signal: the \<open>end\<close> event, or \<open>error\<close> with its message.\<close>

datatype outcome = Ended | Errored string

text \<open>
  The observable effects of a run, in order. Of the console output only errors and
  warnings are recorded (\<open>log.error\<close>, \<open>log.warning\<close>, \<open>console.error\<close>); banners,
  information and progress lines are left out. The bodies of the metadata file, the
  player page and the read-me are not spelled out; the master playlist's text is.
  File-system writes are taken to succeed.
\<close>

datatype level = Error | Warning

datatype body =
    Text string
  | MetadataJson jsnum string string
  | PlayerHtml
  | PlaybackMd

datatype effect =
    Log level string
  | ConsoleError string
  | Mkdir path
  | WriteFile path body
  | Run invocation
  | Signal outcome
  | Exit nat

text \<open>
  The environment: the file system's answers to \<open>fs.existsSync\<close>, Node's
  \<open>path.extname\<close>, the prompt answers, the probe (an error message or the data), and
  the engine, which decides each invocation from the number of invocations run before it
  and from the command.
\<close>

record env =
  existsSync :: "path \<Rightarrow> bool"
  extname :: "string \<Rightarrow> string"
  prompt :: answers
  ffprobe :: "string \<Rightarrow> string + ffprobe_data"
  ffmpeg :: "nat \<Rightarrow> invocation \<Rightarrow> outcome"

text \<open>The result of an asynchronous function: resolved, or rejected with an error message.\<close>

datatype completion = Resolved | Rejected string

text \<open>The commands run so far, and the signals received so far, in order.\<close>

fun runs :: "effect list \<Rightarrow> invocation list" where
  "runs [] = []"
| "runs (Run c # es) = c # runs es"
| "runs (_ # es) = runs es"

fun signals :: "effect list \<Rightarrow> outcome list" where
  "signals [] = []"
| "signals (Signal s # es) = s # signals es"
| "signals (_ # es) = signals es"

text \<open>Starts the command: the engine runs it to its completion signal.\<close>

definition invoke :: "env \<Rightarrow> invocation \<Rightarrow> effect list \<Rightarrow> outcome \<times> effect list" where
  "invoke e c tr =
     (let res = ffmpeg e (length (runs tr)) c in (res, tr @ [Run c, Signal res]))"

section \<open>validateInput\<close>

definition validPresets :: "string list" where
  "validPresets =
     [''ultrafast'', ''superfast'', ''veryfast'', ''faster'', ''fast'', ''medium'', ''slow'',
      ''slower'', ''veryslow'']"

definition quoted :: "string \<Rightarrow> string" where
  "quoted s = [CHR 0x22] @ s @ [CHR 0x22]"

text \<open>
  The first component of the result is the code of \<open>process.exit\<close> when the function
  ends the process, and \<open>None\<close> when it returns.
\<close>

definition validateInput :: "env \<Rightarrow> options \<Rightarrow> effect list \<Rightarrow> nat option \<times> effect list" where
  "validateInput e opts tr =
     (if inputFile opts = [] then
        (Some 1, tr @ [Log Error ''No input file specified. Use --help for usage information.'',
                       Exit 1])
      else if \<not> existsSync e [inputFile opts] then
        (Some 1, tr @ [Log Error (''Input file not found: '' @ quoted (inputFile opts)), Exit 1])
      else if js_le (chunkLength opts) (Num 0) then
        (Some 1, tr @ [Log Error ''Chunk length must be greater than 0 seconds.'', Exit 1])
      else if qualityPreset opts \<notin> set validPresets then
        (None, tr @ [Log Warning (''Invalid quality preset: '' @ quoted (qualityPreset opts)
                                   @ ''. Using '' @ quoted ''fast'' @ '' instead.'')])
      else (None, tr))"

section \<open>setupOutput and getVideoMetadata\<close>

definition setupOutput :: "env \<Rightarrow> options \<Rightarrow> outputConfig" where
  "setupOutput e opts =
     (let a = prompt e in
      if ans_mode a = Encode then
        (if ans_extension a = ''custom''
         then \<lparr>mode = Encode, extension = ans_custom a, segmentLength = None, playlistType = None\<rparr>
         else \<lparr>mode = Encode, extension = ans_extension a, segmentLength = None,
               playlistType = None\<rparr>)
      else if ans_mode a = Hls then
        \<lparr>mode = Hls, extension = ''ts'', segmentLength = Some (ans_segmentLength a),
         playlistType = Some (ans_playlistType a)\<rparr>
      else
        \<lparr>mode = Copy,
         extension = js_or_str (toLowerCase (drop 1 (extname e (inputFile opts)))) ''mp4'',
         segmentLength = None, playlistType = None\<rparr>)"

definition dimension :: "nat option \<Rightarrow> string" where
  "dimension d = (case d of None \<Rightarrow> ''undefined'' | Some n \<Rightarrow> decimal n)"

definition getVideoMetadata :: "env \<Rightarrow> string \<Rightarrow> string + metadata" where
  "getVideoMetadata e f =
     (case ffprobe e f of
        Inl err \<Rightarrow> Inl err
      | Inr m \<Rightarrow>
          (let videoStream = find (\<lambda>s. codec_type s = ''video'') (streams m);
               audioStream = find (\<lambda>s. codec_type s = ''audio'') (streams m)
           in Inr \<lparr>duration = format_duration m,
                   hasVideo = Some (videoStream \<noteq> None),
                   hasAudio = Some (audioStream \<noteq> None),
                   videoCodec = Option.bind videoStream codec_name,
                   audioCodec = Option.bind audioStream codec_name,
                   resolution =
                     Some (case videoStream of
                             Some v \<Rightarrow> dimension (width v) @ ''x'' @ dimension (height v)
                           | None \<Rightarrow> ''Unknown''),
                   bitrate = format_bit_rate m\<rparr>))"

section \<open>createOutputDirectory\<close>

definition createOutputDirectory :: "env \<Rightarrow> options \<Rightarrow> effect list \<Rightarrow> effect list" where
  "createOutputDirectory e opts tr =
     (let tr1 = (if \<not> existsSync e [outputDir opts] then tr @ [Mkdir [outputDir opts]] else tr)
      in tr1 @ [WriteFile [outputDir opts, ''ielts2go_metadata.json'']
                  (MetadataJson (chunkLength opts) (qualityPreset opts) (outputDir opts))])"

section \<open>createMasterPlaylist and createHLSPlayer\<close>

definition newline :: string where
  "newline = [CHR 0x0A]"

definition masterPlaylistPath :: "options \<Rightarrow> path" where
  "masterPlaylistPath opts = [outputDir opts, filePrefix opts @ ''_master.m3u8'']"

definition masterPlaylistContent :: "options \<Rightarrow> metadata \<Rightarrow> string" where
  "masterPlaylistContent opts md =
     ''#EXTM3U'' @ newline
     @ ''#EXT-X-VERSION:3'' @ newline
     @ ''#EXT-X-STREAM-INF:BANDWIDTH=2800000,RESOLUTION='' @ js_or_undef (resolution md) ''1280x720''
     @ newline
     @ ''hls/'' @ filePrefix opts @ ''.m3u8'' @ newline"

definition playerPath :: "options \<Rightarrow> path" where
  "playerPath opts = [outputDir opts, ''player.html'']"

definition createHLSPlayer :: "options \<Rightarrow> path \<Rightarrow> metadata \<Rightarrow> effect list \<Rightarrow> effect list" where
  "createHLSPlayer opts playlistPath md tr =
     tr @ [WriteFile (playerPath opts) PlayerHtml,
           WriteFile [outputDir opts, ''PLAYBACK.md''] PlaybackMd]"

definition createMasterPlaylist :: "options \<Rightarrow> path \<Rightarrow> metadata \<Rightarrow> effect list \<Rightarrow> effect list" where
  "createMasterPlaylist opts hlsDir md tr =
     createHLSPlayer opts (masterPlaylistPath opts) md
       (tr @ [WriteFile (masterPlaylistPath opts) (Text (masterPlaylistContent opts md))])"

section \<open>processHLSStream and tryLastResortHLSConversion\<close>

definition lastResortCommand :: "string \<Rightarrow> path \<Rightarrow> path \<Rightarrow> invocation" where
  "lastResortCommand inp playlistPath segmentPattern =
     \<lparr>source = inp, seekInput = None, duration_limit = None,
      outputOptions =
        [S ''-c:v'', S ''libx264'',
         S ''-preset'', S ''ultrafast'',
         S ''-c:a'', S ''aac'',
         S ''-hls_time'', N (Num 4),
         S ''-hls_segment_filename'', P segmentPattern,
         S ''-f'', S ''hls''],
      target = playlistPath\<rparr>"

definition tryLastResortHLSConversion ::
  "env \<Rightarrow> options \<Rightarrow> string \<Rightarrow> path \<Rightarrow> path \<Rightarrow> effect list \<Rightarrow> completion \<times> effect list" where
  "tryLastResortHLSConversion e opts inp playlistPath segmentPattern tr =
     (case invoke e (lastResortCommand inp playlistPath segmentPattern) tr of
        (Ended, tr1) \<Rightarrow>
          (Resolved, createMasterPlaylist opts (butlast playlistPath) emptyMetadata tr1)
      | (Errored msg, tr1) \<Rightarrow>
          (Rejected msg,
           tr1 @ [Log Error (''Last resort HLS conversion failed: '' @ msg),
                  Log Warning
                    ''Please ensure FFmpeg is properly installed with libx264 and HLS support'']))"

definition hlsDir :: "options \<Rightarrow> path" where
  "hlsDir opts = [outputDir opts, ''hls'']"

definition hlsPlaylistPath :: "options \<Rightarrow> path" where
  "hlsPlaylistPath opts = hlsDir opts @ [filePrefix opts @ ''.m3u8'']"

definition hlsSegmentPattern :: "options \<Rightarrow> path" where
  "hlsSegmentPattern opts = hlsDir opts @ [filePrefix opts @ ''_%03d.ts'']"

definition hlsCommand :: "options \<Rightarrow> outputConfig \<Rightarrow> string \<Rightarrow> invocation" where
  "hlsCommand opts oc pt =
     \<lparr>source = inputFile opts, seekInput = None, duration_limit = None,
      outputOptions =
        [S ''-c:v'', S ''libx264'',
         S ''-preset'', S ''ultrafast'',
         S ''-tune'', S ''fastdecode'',
         S ''-c:a'', S ''aac'',
         S ''-b:a'', S ''96k'',
         S ''-ac'', S ''2'',
         S ''-ar'', S ''44100'',
         S ''-hls_time'', (case segmentLength oc of Some n \<Rightarrow> N n | None \<Rightarrow> Undefined),
         S ''-hls_segment_filename'', P (hlsSegmentPattern opts),
         S ''-threads'', S ''auto'',
         S ''-f'', S ''hls'']
        @ (if pt \<noteq> [] \<and> pt \<noteq> ''none'' then [S ''-hls_playlist_type'', S pt] else []),
      target = hlsPlaylistPath opts\<rparr>"

text \<open>
  The message of the \<open>TypeError\<close> that \<open>playlistType.toUpperCase()\<close> throws when the
  configuration has no playlist type; \<open>run\<close> never builds such a configuration in HLS
  mode.
\<close>

definition undefinedPlaylistType :: string where
  "undefinedPlaylistType =
     ''Cannot read properties of undefined (reading '' @ [CHR 0x27] @ ''toUpperCase''
     @ [CHR 0x27] @ '')''"

definition processHLSStream ::
  "env \<Rightarrow> options \<Rightarrow> jsnum \<Rightarrow> outputConfig \<Rightarrow> metadata \<Rightarrow> effect list
    \<Rightarrow> completion \<times> effect list" where
  "processHLSStream e opts totalDuration oc md tr =
     (let tr0 = (if \<not> existsSync e (hlsDir opts) then tr @ [Mkdir (hlsDir opts)] else tr)
      in case playlistType oc of
           None \<Rightarrow> (Rejected undefinedPlaylistType, tr0)
         | Some pt \<Rightarrow>
             (case invoke e (hlsCommand opts oc pt) tr0 of
                (Ended, tr1) \<Rightarrow> (Resolved, createMasterPlaylist opts (hlsDir opts) md tr1)
              | (Errored msg, tr1) \<Rightarrow>
                  tryLastResortHLSConversion e opts (inputFile opts) (hlsPlaylistPath opts)
                    (hlsSegmentPattern opts)
                    (tr1 @ [Log Error (''HLS conversion failed: '' @ msg),
                            Log Warning ''Trying with even more basic parameters...''])))"

section \<open>processChunks\<close>

definition outputFilename :: "options \<Rightarrow> outputConfig \<Rightarrow> nat \<Rightarrow> string" where
  "outputFilename opts oc i =
     filePrefix opts @ ''_'' @ padStart 3 (CHR ''0'') (decimal (i + 1)) @ ''.'' @ extension oc"

definition chunkStartTime :: "options \<Rightarrow> nat \<Rightarrow> jsnum" where
  "chunkStartTime opts i = js_mul (Num (real i)) (chunkLength opts)"

definition chunkCommand :: "options \<Rightarrow> outputConfig \<Rightarrow> nat \<Rightarrow> invocation" where
  "chunkCommand opts oc i =
     \<lparr>source = inputFile opts,
      seekInput = Some (chunkStartTime opts i),
      duration_limit = Some (chunkLength opts),
      outputOptions =
        (if mode oc = Copy then
           [S ''-c'', S ''copy'',
            S ''-avoid_negative_ts'', S ''make_zero'']
         else
           [S ''-c:v libx264'',
            S ''-preset'', S (qualityPreset opts),
            S ''-c:a aac'',
            S ''-movflags'', S ''+faststart'',
            S ''-avoid_negative_ts'', S ''make_zero'']),
      target = [outputDir opts, outputFilename opts oc i]\<rparr>"

text \<open>
  The loop \<open>for (let i = 0; i < numChunks; i++)\<close>, from index \<open>i\<close> on: each iteration
  awaits the promise of its invocation, and a rejection leaves the loop and the function.
  With an infinite \<open>numChunks\<close> and an engine that never fails the loop does not end,
  which is the value \<open>None\<close>.
\<close>

partial_function (option) chunkLoop ::
  "env \<Rightarrow> options \<Rightarrow> outputConfig \<Rightarrow> jsnum \<Rightarrow> nat \<Rightarrow> effect list
    \<Rightarrow> (completion \<times> effect list) option" where
  "chunkLoop e opts oc numChunks i tr =
     (if js_lt (Num (real i)) numChunks then
        (case invoke e (chunkCommand opts oc i) tr of
           (Ended, tr1) \<Rightarrow> chunkLoop e opts oc numChunks (Suc i) tr1
         | (Errored msg, tr1) \<Rightarrow>
             Some (Rejected msg,
                   tr1 @ [Log Error (''Failed to process chunk '' @ decimal (i + 1) @ '': '' @ msg)]))
      else Some (Resolved, tr))"

definition numChunks :: "options \<Rightarrow> jsnum \<Rightarrow> jsnum" where
  "numChunks opts totalDuration = js_ceil (js_div totalDuration (chunkLength opts))"

definition processChunks ::
  "env \<Rightarrow> options \<Rightarrow> jsnum \<Rightarrow> outputConfig \<Rightarrow> metadata \<Rightarrow> effect list
    \<Rightarrow> (completion \<times> effect list) option" where
  "processChunks e opts totalDuration oc md tr =
     (if mode oc = Hls then Some (processHLSStream e opts totalDuration oc md tr)
      else chunkLoop e opts oc (numChunks opts totalDuration) 0 tr)"

section \<open>run\<close>

text \<open>The \<open>catch\<close> block of \<open>run\<close>: it reports the error and exits with code 1.\<close>

definition handleError :: "string \<Rightarrow> effect list \<Rightarrow> nat \<times> effect list" where
  "handleError msg tr =
     (1, tr @ [Log Error ''An unexpected error occurred:'', ConsoleError msg]
            @ (if js_includes msg ''ffmpeg'' \<or> js_includes msg ''ffprobe''
               then [Log Warning
                       ''Please ensure FFmpeg is installed and accessible in your system PATH.'']
               else [])
            @ [Exit 1])"

definition cliOutputConfig :: "options \<Rightarrow> outputConfig" where
  "cliOutputConfig opts =
     \<lparr>mode = Hls, extension = ''ts'',
      segmentLength = Some (js_or_num (parseInt (hlsSegment opts)) (Num 4)),
      playlistType = Some (js_or_str (hlsType opts) ''vod'')\<rparr>"

definition selectOutputConfig :: "env \<Rightarrow> options \<Rightarrow> outputConfig" where
  "selectOutputConfig e opts = (if hls opts then cliOutputConfig opts else setupOutput e opts)"

text \<open>
  The whole program: the exit code of the process and its effects, or \<open>None\<close> when it
  does not end. A run that returns from \<open>run\<close> normally ends the process with code 0.
\<close>

definition run :: "env \<Rightarrow> options \<Rightarrow> (nat \<times> effect list) option" where
  "run e opts =
     (case validateInput e opts [] of
        (Some code, tr) \<Rightarrow> Some (code, tr)
      | (None, tr) \<Rightarrow>
          (let oc = selectOutputConfig e opts
           in case getVideoMetadata e (inputFile opts) of
                Inl msg \<Rightarrow> Some (handleError msg tr)
              | Inr md \<Rightarrow>
                  (case duration md of
                     None \<Rightarrow>
                       Some (1, tr @ [Log Error
                         ''Could not determine video duration. Please check if the file is a valid video.'',
                         Exit 1])
                   | Some d \<Rightarrow>
                       if \<not> js_truthy d then
                         Some (1, tr @ [Log Error
                           ''Could not determine video duration. Please check if the file is a valid video.'',
                           Exit 1])
                       else
                         (case processChunks e opts d oc md (createOutputDirectory e opts tr) of
                            None \<Rightarrow> None
                          | Some (Resolved, tr1) \<Rightarrow> Some (0, tr1)
                          | Some (Rejected msg, tr1) \<Rightarrow> Some (handleError msg tr1)))))"

section \<open>Notions used in the statements\<close>

text \<open>
  The number of indices \<open>i = 0, 1, \<dots>\<close> with \<open>i < n\<close>, for a bound \<open>n\<close> other than
  \<open>+Infinity\<close>: no index is below \<open>NaN\<close> or \<open>-Infinity\<close>.
\<close>

fun iterations :: "jsnum \<Rightarrow> nat" where
  "iterations (Num r) = nat \<lceil>r\<rceil>"
| "iterations _ = 0"

text \<open>The loop of \<open>processChunks\<close> unrolled for \<open>k\<close> more iterations from index \<open>i\<close>.\<close>

fun chunkIter ::
  "env \<Rightarrow> options \<Rightarrow> outputConfig \<Rightarrow> nat \<Rightarrow> nat \<Rightarrow> effect list \<Rightarrow> completion \<times> effect list" where
  "chunkIter e opts oc 0 i tr = (Resolved, tr)"
| "chunkIter e opts oc (Suc k) i tr =
     (case invoke e (chunkCommand opts oc i) tr of
        (Ended, tr1) \<Rightarrow> chunkIter e opts oc k (Suc i) tr1
      | (Errored msg, tr1) \<Rightarrow>
          (Rejected msg,
           tr1 @ [Log Error (''Failed to process chunk '' @ decimal (i + 1) @ '': '' @ msg)]))"

text \<open>The effects of \<open>m\<close> jobs from index \<open>i\<close> on that each ran to its \<open>end\<close> signal.\<close>

definition completedJobs :: "options \<Rightarrow> outputConfig \<Rightarrow> nat \<Rightarrow> nat \<Rightarrow> effect list" where
  "completedJobs opts oc i m =
     concat (map (\<lambda>j. [Run (chunkCommand opts oc j), Signal Ended]) [i..<i + m])"

text \<open>The effects of job \<open>j\<close> when its invocation signals an error.\<close>

definition failedJob :: "options \<Rightarrow> outputConfig \<Rightarrow> nat \<Rightarrow> string \<Rightarrow> effect list" where
  "failedJob opts oc j msg =
     [Run (chunkCommand opts oc j), Signal (Errored msg),
      Log Error (''Failed to process chunk '' @ decimal (j + 1) @ '': '' @ msg)]"

text \<open>
  The number of invocations in flight after a sequence of effects: those started minus
  those that have signalled. A run has one invocation at a time when after every prefix
  of its effects none or one is in flight.
\<close>

definition inFlight :: "effect list \<Rightarrow> int" where
  "inFlight p = int (length (runs p)) - int (length (signals p))"

definition oneAtATime :: "effect list \<Rightarrow> bool" where
  "oneAtATime tr = (\<forall>p. prefix p tr \<longrightarrow> inFlight p = 0 \<or> inFlight p = 1)"

text \<open>The start offset and the requested duration of a command, as a job of the plan.\<close>

definition job :: "invocation \<Rightarrow> jsnum option \<times> jsnum option" where
  "job c = (seekInput c, duration_limit c)"

text \<open>
  Modelled from the spec: the transcoding engine is an external program, and what it
  emits for a command is not code of this repository. The spec has it clip an extraction
  at the end of the stream: of the \<open>requested\<close> seconds from \<open>start\<close>, a source of
  \<open>len\<close> seconds yields those that exist.
\<close>

definition clipped :: "real \<Rightarrow> real \<Rightarrow> real \<Rightarrow> real" where
  "clipped len start requested = min requested (len - start)"

text \<open>
  Modelled from the spec: a job as the engine carries it out on a source of \<open>len\<close>
  seconds, that is its start offset and its effective duration, the requested duration
  clipped at the end of the stream. A job without a finite start offset and requested
  duration has none.
\<close>

definition effective :: "real \<Rightarrow> jsnum option \<times> jsnum option \<Rightarrow> (real \<times> real) option" where
  "effective len j =
     (case j of
        (Some (Num start), Some (Num requested)) \<Rightarrow> Some (start, clipped len start requested)
      | _ \<Rightarrow> None)"

text \<open>The pieces of the effects of \<open>processHLSStream\<close>.\<close>

definition ensureHlsDir :: "env \<Rightarrow> options \<Rightarrow> effect list" where
  "ensureHlsDir e opts = (if \<not> existsSync e (hlsDir opts) then [Mkdir (hlsDir opts)] else [])"

definition fallbackCommand :: "options \<Rightarrow> invocation" where
  "fallbackCommand opts =
     lastResortCommand (inputFile opts) (hlsPlaylistPath opts) (hlsSegmentPattern opts)"

definition artifacts :: "options \<Rightarrow> metadata \<Rightarrow> effect list" where
  "artifacts opts md =
     [WriteFile (masterPlaylistPath opts) (Text (masterPlaylistContent opts md)),
      WriteFile (playerPath opts) PlayerHtml,
      WriteFile [outputDir opts, ''PLAYBACK.md''] PlaybackMd]"

definition primaryFailure :: "string \<Rightarrow> effect list" where
  "primaryFailure msg =
     [Log Error (''HLS conversion failed: '' @ msg),
      Log Warning ''Trying with even more basic parameters...'']"

definition fallbackFailure :: "string \<Rightarrow> effect list" where
  "fallbackFailure msg =
     [Log Error (''Last resort HLS conversion failed: '' @ msg),
      Log Warning ''Please ensure FFmpeg is properly installed with libx264 and HLS support'']"

text \<open>Whether the effects hold a write of the file at a path.\<close>

definition written :: "path \<Rightarrow> effect list \<Rightarrow> bool" where
  "written p tr = (\<exists>b. WriteFile p b \<in> set tr)"

section \<open>Sample inputs\<close>

definition sampleOptions :: options where
  "sampleOptions =
     \<lparr>inputArg = ''lesson.mp4'', directory = ''out'', length_opt = ''60'',
      prefix_opt = ''lesson'', quality = ''fast'', hls = False, hlsSegment = ''4'',
      hlsType = ''vod'', progress = True\<rparr>"

text \<open>A source of 125 seconds with a 1920x1080 video stream and an audio stream.\<close>

definition videoFile :: ffprobe_data where
  "videoFile =
     \<lparr>format_duration = Some (Num 125), format_bit_rate = None,
      streams =
        [\<lparr>codec_type = ''video'', codec_name = Some ''h264'', width = Some 1920,
          height = Some 1080\<rparr>,
         \<lparr>codec_type = ''audio'', codec_name = Some ''aac'', width = None, height = None\<rparr>]\<rparr>"

text \<open>A source of 125 seconds with an audio stream only.\<close>

definition audioFile :: ffprobe_data where
  "audioFile =
     \<lparr>format_duration = Some (Num 125), format_bit_rate = None,
      streams = [\<lparr>codec_type = ''audio'', codec_name = Some ''aac'', width = None, height = None\<rparr>]\<rparr>"

text \<open>
  An environment where the input file exists and nothing else does, the prompt picks
  mode \<open>m\<close> with the container \<open>mp4\<close>, the probe reports \<open>f\<close>, and the engine's
  \<open>n\<close>-th invocation (from 0) signals \<open>eng n\<close>.
\<close>

definition sampleEnv :: "mode \<Rightarrow> ffprobe_data \<Rightarrow> (nat \<Rightarrow> outcome) \<Rightarrow> env" where
  "sampleEnv m f eng =
     \<lparr>existsSync = (\<lambda>p. p = [''lesson.mp4'']),
      extname = (\<lambda>s. ''.mp4''),
      prompt = \<lparr>ans_mode = m, ans_extension = ''mp4'', ans_custom = [],
                ans_segmentLength = Num 4, ans_playlistType = ''vod''\<rparr>,
      ffprobe = (\<lambda>s. Inr f),
      ffmpeg = (\<lambda>n c. eng n)\<rparr>"

section \<open>The chunk loop\<close>

lemma invoke_eq:
  "invoke e c tr =
     (ffmpeg e (length (runs tr)) c, tr @ [Run c, Signal (ffmpeg e (length (runs tr)) c)])"
  by (simp add: invoke_def Let_def)

lemma runs_append: "runs (xs @ ys) = runs xs @ runs ys"
  by (induction xs rule: runs.induct) simp_all

lemma signals_append: "signals (xs @ ys) = signals xs @ signals ys"
  by (induction xs rule: signals.induct) simp_all

lemma js_lt_iterations:
  "n \<noteq> PosInf \<Longrightarrow> js_lt (Num (real i)) n = (i < iterations n)"
proof (cases n)
  case (Num r)
  have "(real i < r) = (int i < \<lceil>r\<rceil>)"
    by (simp add: less_ceiling_iff)
  also have "\<dots> = (i < nat \<lceil>r\<rceil>)"
    by linarith
  finally show ?thesis using Num by simp
qed simp_all

lemma chunkLoop_finite:
  "n \<noteq> PosInf \<Longrightarrow>
   chunkLoop e opts oc n i tr = Some (chunkIter e opts oc (iterations n - i) i tr)"
proof (induction "iterations n - i" arbitrary: i tr)
  case 0
  then have "\<not> js_lt (Num (real i)) n"
    by (simp add: js_lt_iterations)
  then show ?case
    using 0 by (subst chunkLoop.simps) simp
next
  case (Suc k)
  then have lt: "js_lt (Num (real i)) n"
    by (simp add: js_lt_iterations)
  have k: "k = iterations n - Suc i" using Suc.hyps(2) by simp
  have unroll: "iterations n - i = Suc (iterations n - Suc i)" using Suc.hyps(2) by simp
  show ?case
    apply (subst chunkLoop.simps)
    apply (simp only: lt if_True unroll chunkIter.simps)
    apply (simp add: Suc.hyps(1)[OF k Suc.prems] split: prod.splits outcome.splits)
    done
qed

lemma completedJobs_0: "completedJobs opts oc i 0 = []"
  by (simp add: completedJobs_def)

lemma completedJobs_Suc:
  "completedJobs opts oc i (Suc m) =
     Run (chunkCommand opts oc i) # Signal Ended # completedJobs opts oc (Suc i) m"
  by (simp add: completedJobs_def upt_rec)

lemma runs_completedJobs:
  "runs (completedJobs opts oc i m) = map (chunkCommand opts oc) [i..<i + m]"
proof (induction m arbitrary: i)
  case 0
  show ?case by (simp add: completedJobs_0)
next
  case (Suc m)
  have "[i..<i + Suc m] = i # [Suc i..<Suc i + m]"
    by (simp add: upt_rec)
  then show ?case
    by (simp add: completedJobs_Suc Suc.IH)
qed

lemma signals_completedJobs:
  "signals (completedJobs opts oc i m) = replicate m Ended"
  by (induction m arbitrary: i) (simp_all add: completedJobs_0 completedJobs_Suc)

lemma runs_failedJob: "runs (failedJob opts oc j msg) = [chunkCommand opts oc j]"
  by (simp add: failedJob_def)

lemma signals_failedJob: "signals (failedJob opts oc j msg) = [Errored msg]"
  by (simp add: failedJob_def)

text \<open>
  What the unrolled loop does: either all \<open>k\<close> jobs ran to their \<open>end\<close> signal, or the
  first \<open>m\<close> did, job \<open>i + m\<close> signalled an error, and nothing came after its error line.
\<close>

lemma chunkIter_shape:
  "chunkIter e opts oc k i tr = (res, tr') \<Longrightarrow>
     (res = Resolved \<and> tr' = tr @ completedJobs opts oc i k
        \<and> (\<forall>j<k. ffmpeg e (length (runs tr) + j) (chunkCommand opts oc (i + j)) = Ended))
   \<or> (\<exists>m msg. m < k \<and> res = Rejected msg
        \<and> tr' = tr @ completedJobs opts oc i m @ failedJob opts oc (i + m) msg
        \<and> (\<forall>j<m. ffmpeg e (length (runs tr) + j) (chunkCommand opts oc (i + j)) = Ended)
        \<and> ffmpeg e (length (runs tr) + m) (chunkCommand opts oc (i + m)) = Errored msg)"
proof (induction k arbitrary: i tr)
  case 0
  then show ?case by (simp add: completedJobs_0)
next
  case (Suc k)
  let ?c = "chunkCommand opts oc i"
  let ?out = "ffmpeg e (length (runs tr)) ?c"
  show ?case
  proof (cases ?out)
    case Ended
    let ?tr1 = "tr @ [Run ?c, Signal Ended]"
    from Suc.prems Ended have rec: "chunkIter e opts oc k (Suc i) ?tr1 = (res, tr')"
      by (simp add: invoke_eq)
    have len: "length (runs ?tr1) = Suc (length (runs tr))"
      by (simp add: runs_append)
    have shift: "\<forall>j<Suc m. ffmpeg e (length (runs tr) + j) (chunkCommand opts oc (i + j)) = Ended"
      if "\<forall>j<m. ffmpeg e (length (runs ?tr1) + j) (chunkCommand opts oc (Suc i + j)) = Ended"
      for m
    proof (intro allI impI)
      fix j assume j: "j < Suc m"
      show "ffmpeg e (length (runs tr) + j) (chunkCommand opts oc (i + j)) = Ended"
      proof (cases j)
        case 0
        then show ?thesis using Ended by simp
      next
        case (Suc j')
        then have "j' < m" using j by simp
        with that have "ffmpeg e (length (runs ?tr1) + j') (chunkCommand opts oc (Suc i + j')) = Ended"
          by blast
        then show ?thesis using Suc len by simp
      qed
    qed
    from Suc.IH[OF rec] show ?thesis
    proof
      assume a: "res = Resolved \<and> tr' = ?tr1 @ completedJobs opts oc (Suc i) k
        \<and> (\<forall>j<k. ffmpeg e (length (runs ?tr1) + j) (chunkCommand opts oc (Suc i + j)) = Ended)"
      with shift[of k] show ?thesis
        by (simp add: completedJobs_Suc)
    next
      assume "\<exists>m msg. m < k \<and> res = Rejected msg
        \<and> tr' = ?tr1 @ completedJobs opts oc (Suc i) m @ failedJob opts oc (Suc i + m) msg
        \<and> (\<forall>j<m. ffmpeg e (length (runs ?tr1) + j) (chunkCommand opts oc (Suc i + j)) = Ended)
        \<and> ffmpeg e (length (runs ?tr1) + m) (chunkCommand opts oc (Suc i + m)) = Errored msg"
      then obtain m msg where m: "m < k" "res = Rejected msg"
        "tr' = ?tr1 @ completedJobs opts oc (Suc i) m @ failedJob opts oc (Suc i + m) msg"
        "\<forall>j<m. ffmpeg e (length (runs ?tr1) + j) (chunkCommand opts oc (Suc i + j)) = Ended"
        "ffmpeg e (length (runs ?tr1) + m) (chunkCommand opts oc (Suc i + m)) = Errored msg"
        by blast
      have "Suc m < Suc k" using m(1) by simp
      moreover have "tr' = tr @ completedJobs opts oc i (Suc m) @ failedJob opts oc (i + Suc m) msg"
        using m(3) by (simp add: completedJobs_Suc)
      moreover have "ffmpeg e (length (runs tr) + Suc m) (chunkCommand opts oc (i + Suc m)) = Errored msg"
        using m(5) len by simp
      ultimately show ?thesis using m(2) shift[OF m(4)] by blast
    qed
  next
    case (Errored msg)
    with Suc.prems have "res = Rejected msg" "tr' = tr @ failedJob opts oc i msg"
      by (simp_all add: invoke_eq failedJob_def)
    then have "0 < Suc k \<and> res = Rejected msg
        \<and> tr' = tr @ completedJobs opts oc i 0 @ failedJob opts oc (i + 0) msg
        \<and> (\<forall>j<0. ffmpeg e (length (runs tr) + j) (chunkCommand opts oc (i + j)) = Ended)
        \<and> ffmpeg e (length (runs tr) + 0) (chunkCommand opts oc (i + 0)) = Errored msg"
      using Errored by (simp add: completedJobs_0)
    then show ?thesis by blast
  qed
qed

lemma processChunks_standard:
  assumes "mode oc \<noteq> Hls" and "numChunks opts d \<noteq> PosInf"
  shows "processChunks e opts d oc md tr =
           Some (chunkIter e opts oc (iterations (numChunks opts d)) 0 tr)"
  using assms by (simp add: processChunks_def chunkLoop_finite)

subsection \<open>One invocation at a time\<close>

lemma oneAtATime_Nil: "oneAtATime []"
  by (simp add: oneAtATime_def inFlight_def)

lemma oneAtATime_pair:
  assumes "oneAtATime rest"
  shows "oneAtATime (Run c # Signal s # rest)"
  unfolding oneAtATime_def
proof (intro allI impI)
  fix p assume "prefix p (Run c # Signal s # rest)"
  then consider "p = []" | "p = [Run c]" | q where "p = Run c # Signal s # q" "prefix q rest"
    by (auto simp: prefix_Cons)
  then show "inFlight p = 0 \<or> inFlight p = 1"
  proof cases
    case 3
    then have "inFlight p = inFlight q" by (simp add: inFlight_def)
    with 3 assms show ?thesis by (simp add: oneAtATime_def)
  qed (simp_all add: inFlight_def)
qed

lemma oneAtATime_completedJobs:
  "oneAtATime rest \<Longrightarrow> oneAtATime (completedJobs opts oc i m @ rest)"
  by (induction m arbitrary: i) (simp_all add: completedJobs_0 completedJobs_Suc oneAtATime_pair)

lemma oneAtATime_failedJob: "oneAtATime (failedJob opts oc j msg)"
  unfolding oneAtATime_def
proof (intro allI impI)
  fix p assume "prefix p (failedJob opts oc j msg)"
  then show "inFlight p = 0 \<or> inFlight p = 1"
    by (auto simp: failedJob_def prefix_Cons inFlight_def)
qed

section \<open>Standard chunking\<close>

lemma numChunks_Num:
  "chunkLength opts = Num c \<Longrightarrow> c \<noteq> 0 \<Longrightarrow> numChunks opts (Num d) = Num (of_int \<lceil>d / c\<rceil>)"
  by (simp add: numChunks_def)

lemma job_chunkCommand:
  "chunkLength opts = Num c \<Longrightarrow>
   job (chunkCommand opts oc i) = (Some (Num (real i * c)), Some (Num c))"
  by (simp add: job_def chunkCommand_def chunkStartTime_def)

lemma sampleOptions_chunkLength: "chunkLength sampleOptions = Num 60"
  by (simp add: chunkLength_def sampleOptions_def parseInt_def isStrWhiteSpace_def isDigit_def
      digitsVal_def digitVal_def Let_def)

lemma sampleEnv_setupOutput_mode: "mode (setupOutput (sampleEnv Copy f eng) opts) = Copy"
  by (simp add: setupOutput_def sampleEnv_def Let_def)

text \<open>
  The jobs that \<open>processChunks\<close> issues in standard mode, by their start offsets and
  requested durations.
\<close>

lemma issued_jobs:
  assumes "chunkLength opts = Num c" and "0 < c" and "0 < d" and "mode oc \<noteq> Hls"
  shows "numChunks opts (Num d) = Num (of_int \<lceil>d / c\<rceil>)
    \<and> (\<exists>res tr. processChunks e opts (Num d) oc md pre = Some (res, pre @ tr)
          \<and> prefix (map job (runs tr))
               (map (\<lambda>i. (Some (Num (real i * c)), Some (Num c))) [0..<nat \<lceil>d / c\<rceil>])
          \<and> (res = Resolved \<longrightarrow>
               runs tr = map (chunkCommand opts oc) [0..<nat \<lceil>d / c\<rceil>]
               \<and> map job (runs tr)
                   = map (\<lambda>i. (Some (Num (real i * c)), Some (Num c))) [0..<nat \<lceil>d / c\<rceil>])
          \<and> ((\<forall>k cmd. ffmpeg e k cmd = Ended) \<longrightarrow> res = Resolved))
    \<and> sorted_wrt (\<lambda>a b. a < b) (map (\<lambda>i. real i * c) [0..<nat \<lceil>d / c\<rceil>])"
proof -
  let ?n = "nat \<lceil>d / c\<rceil>"
  let ?plan = "\<lambda>m. map (\<lambda>i. (Some (Num (real i * c)), Some (Num c))) [0..<m]"
  have nc: "numChunks opts (Num d) = Num (of_int \<lceil>d / c\<rceil>)"
    using assms by (simp add: numChunks_Num)
  then have it: "iterations (numChunks opts (Num d)) = ?n"
    by simp
  have fin: "numChunks opts (Num d) \<noteq> PosInf"
    using nc by simp
  obtain res tr' where it_eq: "chunkIter e opts oc ?n 0 pre = (res, tr')"
    by (cases "chunkIter e opts oc ?n 0 pre") blast
  have pc: "processChunks e opts (Num d) oc md pre = Some (res, tr')"
    using processChunks_standard[OF assms(4) fin] it it_eq by simp
  have jobs: "map job (map (chunkCommand opts oc) [0..<m]) = ?plan m" for m
    using assms(1) by (simp add: job_chunkCommand)
  from chunkIter_shape[OF it_eq]
  have "\<exists>tr. tr' = pre @ tr \<and> prefix (map job (runs tr)) (?plan ?n)
          \<and> (res = Resolved \<longrightarrow>
                runs tr = map (chunkCommand opts oc) [0..<?n] \<and> map job (runs tr) = ?plan ?n)
          \<and> ((\<forall>k cmd. ffmpeg e k cmd = Ended) \<longrightarrow> res = Resolved)"
  proof
    assume a: "res = Resolved \<and> tr' = pre @ completedJobs opts oc 0 ?n
        \<and> (\<forall>j<?n. ffmpeg e (length (runs pre) + j) (chunkCommand opts oc (0 + j)) = Ended)"
    let ?tr = "completedJobs opts oc 0 ?n"
    have r: "runs ?tr = map (chunkCommand opts oc) [0..<?n]"
      by (simp add: runs_completedJobs)
    have j: "map job (runs ?tr) = ?plan ?n"
      unfolding r by (rule jobs)
    have "prefix (map job (runs ?tr)) (?plan ?n)"
      unfolding j by simp
    with a r j show ?thesis by blast
  next
    assume "\<exists>m msg. m < ?n \<and> res = Rejected msg
        \<and> tr' = pre @ completedJobs opts oc 0 m @ failedJob opts oc (0 + m) msg
        \<and> (\<forall>j<m. ffmpeg e (length (runs pre) + j) (chunkCommand opts oc (0 + j)) = Ended)
        \<and> ffmpeg e (length (runs pre) + m) (chunkCommand opts oc (0 + m)) = Errored msg"
    then obtain m msg where m: "m < ?n" "res = Rejected msg"
        "tr' = pre @ completedJobs opts oc 0 m @ failedJob opts oc m msg"
        "ffmpeg e (length (runs pre) + m) (chunkCommand opts oc m) = Errored msg"
      by auto
    have "runs (completedJobs opts oc 0 m @ failedJob opts oc m msg)
            = map (chunkCommand opts oc) [0..<Suc m]"
      by (simp add: runs_append runs_completedJobs runs_failedJob)
    then have r: "map job (runs (completedJobs opts oc 0 m @ failedJob opts oc m msg)) = ?plan (Suc m)"
      using jobs[of "Suc m"] by simp
    have "[0..<?n] = [0..<Suc m] @ [Suc m..<?n]"
      using m(1) by (metis Suc_leI le0 upt_add_eq_append le_add_diff_inverse)
    then have "?plan ?n = ?plan (Suc m) @ map (\<lambda>i. (Some (Num (real i * c)), Some (Num c))) [Suc m..<?n]"
      by (metis map_append)
    then have "prefix (?plan (Suc m)) (?plan ?n)"
      by (metis prefixI)
    moreover have "\<not> (\<forall>k cmd. ffmpeg e k cmd = Ended)"
      using m(4) by (metis outcome.distinct(1))
    ultimately show ?thesis using r m(2,3) by auto
  qed
  with pc have ex: "\<exists>res tr. processChunks e opts (Num d) oc md pre = Some (res, pre @ tr)
          \<and> prefix (map job (runs tr)) (?plan ?n)
          \<and> (res = Resolved \<longrightarrow>
                runs tr = map (chunkCommand opts oc) [0..<?n] \<and> map job (runs tr) = ?plan ?n)
          \<and> ((\<forall>k cmd. ffmpeg e k cmd = Ended) \<longrightarrow> res = Resolved)"
    by blast
  have "sorted_wrt (\<lambda>a b. a < b) (map (\<lambda>i. real i * c) [0..<?n])"
    using assms(2) by (simp add: sorted_wrt_map sorted_wrt_iff_nth_less)
  with nc ex show ?thesis by blast
qed


text \<open>The arithmetic of the chunk count \<open>n = ceil(d / c)\<close>.\<close>

lemma chunk_count_bounds:
  assumes "0 < c" and "0 < d"
  shows "0 < nat \<lceil>d / c\<rceil>"
    and "real (nat \<lceil>d / c\<rceil> - 1) * c < d"
    and "d \<le> real (nat \<lceil>d / c\<rceil> - 1) * c + c"
    and "Suc i < nat \<lceil>d / c\<rceil> \<Longrightarrow> real i * c + c < d"
proof -
  let ?k = "\<lceil>d / c\<rceil>"
  let ?n = "nat ?k"
  have q: "0 < d / c" using assms by simp
  then have kpos: "0 < ?k" by (simp add: ceiling_less_iff less_ceiling_iff)
  then show npos: "0 < ?n" by simp
  have rn: "real ?n = of_int ?k" using kpos by simp
  have rn1: "real (?n - 1) = of_int ?k - 1"
  proof -
    have "1 \<le> ?n" using npos by linarith
    then have "real (?n - 1) = real ?n - real 1" by (rule of_nat_diff)
    then show ?thesis using rn by simp
  qed
  have lo: "of_int ?k - 1 < d / c" by linarith
  have hi: "d / c \<le> of_int ?k" by linarith
  from lo have lo': "(of_int ?k - 1) * c < d"
    using assms(1) by (simp add: pos_less_divide_eq)
  have hi': "d \<le> of_int ?k * c"
    using hi pos_divide_le_eq[OF assms(1), of d "of_int ?k"] by blast
  show below: "real (?n - 1) * c < d"
    unfolding rn1 using lo' by simp
  show "d \<le> real (?n - 1) * c + c"
    unfolding rn1 using hi' by (simp add: algebra_simps)
  show "real i * c + c < d" if "Suc i < ?n"
  proof -
    from that have "real (Suc i) \<le> real (?n - 1)"
      by simp
    then have "real (Suc i) * c \<le> real (?n - 1) * c"
      using assms(1) by (simp only: mult_le_cancel_right_pos)
    with below have "real (Suc i) * c < d"
      by linarith
    then show ?thesis by (simp add: algebra_simps)
  qed
qed

text \<open>
  The planned jobs as the engine carries them out: every job but the last runs for the
  full chunk length, the last one for what the source has left.
\<close>

lemma effective_plan:
  assumes "0 < c" and "0 < d"
  shows "map (effective d) (map (\<lambda>i. (Some (Num (real i * c)), Some (Num c))) [0..<nat \<lceil>d / c\<rceil>])
       = map (\<lambda>i. Some (real i * c, if Suc i < nat \<lceil>d / c\<rceil> then c else d - real i * c))
           [0..<nat \<lceil>d / c\<rceil>]"
proof -
  let ?n = "nat \<lceil>d / c\<rceil>"
  have "clipped d (real i * c) c = (if Suc i < ?n then c else d - real i * c)" if "i < ?n" for i
  proof (cases "Suc i < ?n")
    case True
    from chunk_count_bounds(4)[OF assms True] have "c \<le> d - real i * c"
      by simp
    with True show ?thesis
      by (simp add: clipped_def)
  next
    case False
    with that have i: "i = ?n - 1"
      by simp
    from chunk_count_bounds(3)[OF assms] have "d - real i * c \<le> c"
      unfolding i by simp
    with False show ?thesis
      by (simp add: clipped_def)
  qed
  then show ?thesis
    by (simp add: effective_def)
qed

text \<open>
  C1. With a chunk length \<open>c > 0\<close> and a duration \<open>d > 0\<close> the standard path computes
  \<open>ceil(d / c)\<close> chunks. The jobs it issues are, in order, the jobs \<open>i = 0, 1, \<dots>\<close> below
  that count, each at start offset \<open>i * c\<close>; when it resolves, which it does when every
  invocation ends without error, it has issued exactly \<open>ceil(d / c)\<close> of them. The start
  offsets are strictly increasing. Every job requests \<open>c\<close> seconds; as the engine carries
  them out (it clips at the end of the stream) the jobs are \<open>(i * c, c)\<close> for all but
  the last and \<open>((count - 1) * c, d - (count - 1) * c)\<close> for the last, so that a source of
  125 seconds in chunks of 60 gives \<open>(0, 60)\<close>, \<open>(60, 60)\<close>, \<open>(120, 5)\<close>, and one of 60
  seconds gives the one job \<open>(0, 60)\<close>.
\<close>

theorem C1_chunk_plan:
  assumes "chunkLength opts = Num c" and "0 < c" and "0 < d" and "mode oc \<noteq> Hls"
  shows "numChunks opts (Num d) = Num (of_int \<lceil>d / c\<rceil>)
    \<and> (\<exists>res tr. processChunks e opts (Num d) oc md pre = Some (res, pre @ tr)
          \<and> prefix (map job (runs tr))
               (map (\<lambda>i. (Some (Num (real i * c)), Some (Num c))) [0..<nat \<lceil>d / c\<rceil>])
          \<and> (res = Resolved \<longrightarrow>
               length (runs tr) = nat \<lceil>d / c\<rceil>
               \<and> map job (runs tr)
                   = map (\<lambda>i. (Some (Num (real i * c)), Some (Num c))) [0..<nat \<lceil>d / c\<rceil>]
               \<and> map (effective d) (map job (runs tr))
                   = map (\<lambda>i. Some (real i * c,
                                     if Suc i < nat \<lceil>d / c\<rceil> then c else d - real i * c))
                       [0..<nat \<lceil>d / c\<rceil>])
          \<and> ((\<forall>k cmd. ffmpeg e k cmd = Ended) \<longrightarrow> res = Resolved))
    \<and> sorted_wrt (\<lambda>a b. a < b) (map (\<lambda>i. real i * c) [0..<nat \<lceil>d / c\<rceil>])"
proof -
  let ?n = "nat \<lceil>d / c\<rceil>"
  let ?plan = "map (\<lambda>i. (Some (Num (real i * c)), Some (Num c))) [0..<?n]"
  from issued_jobs[OF assms, of e md pre]
  obtain res tr where nc: "numChunks opts (Num d) = Num (of_int \<lceil>d / c\<rceil>)"
    and pc: "processChunks e opts (Num d) oc md pre = Some (res, pre @ tr)"
    and pf: "prefix (map job (runs tr)) ?plan"
    and ok: "res = Resolved \<longrightarrow>
               runs tr = map (chunkCommand opts oc) [0..<?n] \<and> map job (runs tr) = ?plan"
    and en: "(\<forall>k cmd. ffmpeg e k cmd = Ended) \<longrightarrow> res = Resolved"
    and so: "sorted_wrt (\<lambda>a b. a < b) (map (\<lambda>i. real i * c) [0..<?n])"
    by blast
  have "res = Resolved \<longrightarrow>
               length (runs tr) = ?n
               \<and> map job (runs tr) = ?plan
               \<and> map (effective d) (map job (runs tr))
                   = map (\<lambda>i. Some (real i * c, if Suc i < ?n then c else d - real i * c)) [0..<?n]"
  proof
    assume "res = Resolved"
    with ok have r: "runs tr = map (chunkCommand opts oc) [0..<?n]" and j: "map job (runs tr) = ?plan"
      by blast+
    from r have "length (runs tr) = ?n"
      by simp
    moreover have "map (effective d) (map job (runs tr))
        = map (\<lambda>i. Some (real i * c, if Suc i < ?n then c else d - real i * c)) [0..<?n]"
      unfolding j by (rule effective_plan[OF assms(2,3)])
    ultimately show "length (runs tr) = ?n
               \<and> map job (runs tr) = ?plan
               \<and> map (effective d) (map job (runs tr))
                   = map (\<lambda>i. Some (real i * c, if Suc i < ?n then c else d - real i * c)) [0..<?n]"
      using j by blast
  qed
  with nc pc pf en so show ?thesis
    by blast
qed

theorem C1_chunk_plan_witness:
  "chunkLength sampleOptions = Num 60 \<and> (0 :: real) < 60 \<and> (0 :: real) < 125
   \<and> mode (setupOutput (sampleEnv Copy videoFile (\<lambda>n. Ended)) sampleOptions) \<noteq> Hls
   \<and> numChunks sampleOptions (Num 125) = Num 3
   \<and> (\<exists>tr. processChunks (sampleEnv Copy videoFile (\<lambda>n. Ended)) sampleOptions (Num 125)
               (setupOutput (sampleEnv Copy videoFile (\<lambda>n. Ended)) sampleOptions)
               emptyMetadata [] = Some (Resolved, tr)
          \<and> length (runs tr) = 3
          \<and> map job (runs tr)
               = [(Some (Num 0), Some (Num 60)), (Some (Num 60), Some (Num 60)),
                  (Some (Num 120), Some (Num 60))]
          \<and> map (effective 125) (map job (runs tr))
               = [Some (0, 60), Some (60, 60), Some (120, 5)])
   \<and> (\<exists>tr. processChunks (sampleEnv Copy videoFile (\<lambda>n. Ended)) sampleOptions (Num 60)
               (setupOutput (sampleEnv Copy videoFile (\<lambda>n. Ended)) sampleOptions)
               emptyMetadata [] = Some (Resolved, tr)
          \<and> length (runs tr) = 1
          \<and> map job (runs tr) = [(Some (Num 0), Some (Num 60))]
          \<and> map (effective 60) (map job (runs tr)) = [Some (0, 60)])"
proof -
  let ?e = "sampleEnv Copy videoFile (\<lambda>n. Ended)"
  let ?oc = "setupOutput ?e sampleOptions"
  have m: "mode ?oc \<noteq> Hls"
    by (simp add: sampleEnv_setupOutput_mode)
  have three: "nat \<lceil>(125 :: real) / 60\<rceil> = 3" and one: "nat \<lceil>(60 :: real) / 60\<rceil> = 1"
    by simp_all
  have all: "\<forall>k cmd. ffmpeg ?e k cmd = Ended"
    by (simp add: sampleEnv_def)
  have up3: "[0..<3] = [0, 1, 2 :: nat]" and up1: "[0..<1] = [0 :: nat]"
    by (simp_all add: upt_rec)
  from C1_chunk_plan[OF sampleOptions_chunkLength _ _ m, of 125 ?e emptyMetadata "[]"] all
  have a: "numChunks sampleOptions (Num 125) = Num 3"
    "\<exists>tr. processChunks ?e sampleOptions (Num 125) ?oc emptyMetadata [] = Some (Resolved, tr)
       \<and> length (runs tr) = 3
       \<and> map job (runs tr)
            = [(Some (Num 0), Some (Num 60)), (Some (Num 60), Some (Num 60)),
               (Some (Num 120), Some (Num 60))]
       \<and> map (effective 125) (map job (runs tr))
            = [Some (0, 60), Some (60, 60), Some (120, 5)]"
    by (auto simp: three up3)
  from C1_chunk_plan[OF sampleOptions_chunkLength _ _ m, of 60 ?e emptyMetadata "[]"] all
  have b: "\<exists>tr. processChunks ?e sampleOptions (Num 60) ?oc emptyMetadata [] = Some (Resolved, tr)
       \<and> length (runs tr) = 1
       \<and> map job (runs tr) = [(Some (Num 0), Some (Num 60))]
       \<and> map (effective 60) (map job (runs tr)) = [Some (0, 60)]"
    by (auto simp: up1)
  show ?thesis
    using a b m by (simp add: sampleOptions_chunkLength)
qed

text \<open>
  C6. With a chunk length \<open>c > 0\<close> and a duration \<open>d > 0\<close> the standard path returns, and
  when it resolves (as it does when every invocation ends without error) it has issued
  \<open>count = ceil(d / c)\<close> jobs, at least one, of which the last is job \<open>count - 1\<close>: it
  starts at \<open>(count - 1) * c\<close> and requests \<open>c\<close> seconds. What the engine's clipping at
  the end of the stream leaves of that request is \<open>d - (count - 1) * c\<close>, which is
  positive and at most \<open>c\<close>.
\<close>

theorem C6_last_chunk_effective_duration:
  assumes "chunkLength opts = Num c" and "0 < c" and "0 < d" and "mode oc \<noteq> Hls"
  shows "numChunks opts (Num d) = Num (real (nat \<lceil>d / c\<rceil>))
    \<and> 0 < nat \<lceil>d / c\<rceil>
    \<and> (\<exists>res tr. processChunks e opts (Num d) oc md pre = Some (res, pre @ tr)
          \<and> ((\<forall>k cmd. ffmpeg e k cmd = Ended) \<longrightarrow> res = Resolved)
          \<and> (res = Resolved \<longrightarrow>
                length (runs tr) = nat \<lceil>d / c\<rceil>
              \<and> runs tr \<noteq> []
              \<and> last (runs tr) = chunkCommand opts oc (nat \<lceil>d / c\<rceil> - 1)
              \<and> job (last (runs tr))
                  = (Some (Num (real (nat \<lceil>d / c\<rceil> - 1) * c)), Some (Num c))
              \<and> effective d (job (last (runs tr)))
                  = Some (real (nat \<lceil>d / c\<rceil> - 1) * c, d - real (nat \<lceil>d / c\<rceil> - 1) * c)))
    \<and> clipped d (real (nat \<lceil>d / c\<rceil> - 1) * c) c = d - real (nat \<lceil>d / c\<rceil> - 1) * c
    \<and> 0 < d - real (nat \<lceil>d / c\<rceil> - 1) * c
    \<and> d - real (nat \<lceil>d / c\<rceil> - 1) * c \<le> c"
proof -
  let ?n = "nat \<lceil>d / c\<rceil>"
  let ?s = "real (?n - 1) * c"
  note b = chunk_count_bounds[OF assms(2,3)]
  have npos: "0 < ?n" by (rule b(1))
  have pos: "0 < d - ?s" using b(2) by simp
  have le: "d - ?s \<le> c" using b(3) by simp
  have cl: "clipped d ?s c = d - ?s"
    using le by (simp add: clipped_def)
  have "real ?n = of_int \<lceil>d / c\<rceil>"
    using npos by simp
  then have nc: "numChunks opts (Num d) = Num (real ?n)"
    using assms by (simp add: numChunks_Num)
  from issued_jobs[OF assms, of e md pre]
  obtain res tr where pc: "processChunks e opts (Num d) oc md pre = Some (res, pre @ tr)"
    and ok: "res = Resolved \<longrightarrow> runs tr = map (chunkCommand opts oc) [0..<?n]"
    and en: "(\<forall>k cmd. ffmpeg e k cmd = Ended) \<longrightarrow> res = Resolved"
    by blast
  have lastjob: "res = Resolved \<longrightarrow>
                length (runs tr) = ?n
              \<and> runs tr \<noteq> []
              \<and> last (runs tr) = chunkCommand opts oc (?n - 1)
              \<and> job (last (runs tr)) = (Some (Num ?s), Some (Num c))
              \<and> effective d (job (last (runs tr))) = Some (?s, d - ?s)"
  proof
    assume "res = Resolved"
    with ok have r: "runs tr = map (chunkCommand opts oc) [0..<?n]"
      by blast
    have len: "length (runs tr) = ?n"
      unfolding r by simp
    have ne: "runs tr \<noteq> []"
      unfolding r using npos by simp
    have lst: "last (runs tr) = chunkCommand opts oc (?n - 1)"
      unfolding r using npos by (simp add: last_map last_upt)
    have j: "job (last (runs tr)) = (Some (Num ?s), Some (Num c))"
      unfolding lst by (rule job_chunkCommand[OF assms(1)])
    have e1: "effective d (Some (Num ?s), Some (Num c)) = Some (?s, clipped d ?s c)"
      by (simp add: effective_def)
    have "effective d (job (last (runs tr))) = Some (?s, d - ?s)"
      by (simp only: j e1 cl)
    with len ne lst j show "length (runs tr) = ?n
              \<and> runs tr \<noteq> []
              \<and> last (runs tr) = chunkCommand opts oc (?n - 1)
              \<and> job (last (runs tr)) = (Some (Num ?s), Some (Num c))
              \<and> effective d (job (last (runs tr))) = Some (?s, d - ?s)"
      by blast
  qed
  from nc npos pc en lastjob cl pos le show ?thesis
    by blast
qed

theorem C6_last_chunk_effective_duration_witness:
  "chunkLength sampleOptions = Num 60 \<and> (0 :: real) < 60 \<and> (0 :: real) < 125
   \<and> mode (setupOutput (sampleEnv Copy videoFile (\<lambda>n. Ended)) sampleOptions) \<noteq> Hls
   \<and> numChunks sampleOptions (Num 125) = Num 3
   \<and> (\<exists>tr. processChunks (sampleEnv Copy videoFile (\<lambda>n. Ended)) sampleOptions (Num 125)
               (setupOutput (sampleEnv Copy videoFile (\<lambda>n. Ended)) sampleOptions)
               emptyMetadata [] = Some (Resolved, tr)
          \<and> length (runs tr) = 3
          \<and> job (last (runs tr)) = (Some (Num 120), Some (Num 60))
          \<and> effective 125 (job (last (runs tr))) = Some (120, 5))
   \<and> clipped 125 120 60 = 5"
proof -
  let ?e = "sampleEnv Copy videoFile (\<lambda>n. Ended)"
  let ?oc = "setupOutput ?e sampleOptions"
  have m: "mode ?oc \<noteq> Hls"
    by (simp add: sampleEnv_setupOutput_mode)
  have three: "nat \<lceil>(125 :: real) / 60\<rceil> = 3"
    by simp
  have all: "\<forall>k cmd. ffmpeg ?e k cmd = Ended"
    by (simp add: sampleEnv_def)
  from C6_last_chunk_effective_duration[OF sampleOptions_chunkLength _ _ m, of 125 ?e
      emptyMetadata "[]"] all
  have "numChunks sampleOptions (Num 125) = Num 3
    \<and> (\<exists>tr. processChunks ?e sampleOptions (Num 125) ?oc emptyMetadata [] = Some (Resolved, tr)
          \<and> length (runs tr) = 3
          \<and> job (last (runs tr)) = (Some (Num 120), Some (Num 60))
          \<and> effective 125 (job (last (runs tr))) = Some (120, 5))
    \<and> clipped 125 120 60 = 5"
    by (auto simp: three)
  then show ?thesis
    using m by (simp add: sampleOptions_chunkLength)
qed

text \<open>
  C7. In standard mode with a chunk count other than \<open>+Infinity\<close> the function returns,
  and its effects are those of jobs \<open>0, 1, \<dots>\<close> in order, each started once and each
  signalling before the next starts, so that after every prefix of the effects at most one
  invocation is in flight. Either every job of the count ended without error and the
  function resolves, or the first job \<open>m\<close> whose invocation signals an error is the last
  one started: the effects end with its error line, no job after \<open>m\<close> is started, job
  \<open>m\<close> is not run again, and the function rejects with that error.
\<close>

theorem C7_sequential_and_abort:
  assumes "mode oc \<noteq> Hls" and "numChunks opts d \<noteq> PosInf"
  shows "\<exists>res tr.
     processChunks e opts d oc md pre = Some (res, pre @ tr)
   \<and> oneAtATime tr
   \<and> ((res = Resolved
          \<and> tr = completedJobs opts oc 0 (iterations (numChunks opts d))
          \<and> (\<forall>j<iterations (numChunks opts d).
                ffmpeg e (length (runs pre) + j) (chunkCommand opts oc j) = Ended))
      \<or> (\<exists>m msg. m < iterations (numChunks opts d)
          \<and> res = Rejected msg
          \<and> (\<forall>j<m. ffmpeg e (length (runs pre) + j) (chunkCommand opts oc j) = Ended)
          \<and> ffmpeg e (length (runs pre) + m) (chunkCommand opts oc m) = Errored msg
          \<and> tr = completedJobs opts oc 0 m @ failedJob opts oc m msg
          \<and> runs tr = map (chunkCommand opts oc) [0..<Suc m]
          \<and> signals tr = replicate m Ended @ [Errored msg]))"
proof -
  let ?n = "iterations (numChunks opts d)"
  obtain res tr' where it_eq: "chunkIter e opts oc ?n 0 pre = (res, tr')"
    by (cases "chunkIter e opts oc ?n 0 pre") blast
  have pc: "processChunks e opts d oc md pre = Some (res, tr')"
    using processChunks_standard[OF assms] it_eq by simp
  from chunkIter_shape[OF it_eq] show ?thesis
  proof
    assume a: "res = Resolved \<and> tr' = pre @ completedJobs opts oc 0 ?n
        \<and> (\<forall>j<?n. ffmpeg e (length (runs pre) + j) (chunkCommand opts oc (0 + j)) = Ended)"
    have "oneAtATime (completedJobs opts oc 0 ?n)"
      using oneAtATime_completedJobs[OF oneAtATime_Nil] by simp
    with a pc show ?thesis by auto
  next
    assume "\<exists>m msg. m < ?n \<and> res = Rejected msg
        \<and> tr' = pre @ completedJobs opts oc 0 m @ failedJob opts oc (0 + m) msg
        \<and> (\<forall>j<m. ffmpeg e (length (runs pre) + j) (chunkCommand opts oc (0 + j)) = Ended)
        \<and> ffmpeg e (length (runs pre) + m) (chunkCommand opts oc (0 + m)) = Errored msg"
    then obtain m msg where m: "m < ?n" "res = Rejected msg"
        "tr' = pre @ completedJobs opts oc 0 m @ failedJob opts oc m msg"
        "\<forall>j<m. ffmpeg e (length (runs pre) + j) (chunkCommand opts oc j) = Ended"
        "ffmpeg e (length (runs pre) + m) (chunkCommand opts oc m) = Errored msg"
      by auto
    let ?tr = "completedJobs opts oc 0 m @ failedJob opts oc m msg"
    have one: "oneAtATime ?tr"
      by (rule oneAtATime_completedJobs[OF oneAtATime_failedJob])
    have rs: "runs ?tr = map (chunkCommand opts oc) [0..<Suc m]"
      by (simp add: runs_append runs_completedJobs runs_failedJob)
    have ss: "signals ?tr = replicate m Ended @ [Errored msg]"
      by (simp add: signals_append signals_completedJobs signals_failedJob)
    have "processChunks e opts d oc md pre = Some (Rejected msg, pre @ ?tr)"
      using pc m(2,3) by simp
    with one rs ss m(1,4,5) show ?thesis by blast
  qed
qed

theorem C7_sequential_and_abort_witness:
  "\<exists>res tr.
     processChunks (sampleEnv Copy videoFile (\<lambda>n. if n = 1 then Errored ''disk full'' else Ended))
       sampleOptions (Num 125)
       (setupOutput (sampleEnv Copy videoFile (\<lambda>n. Ended)) sampleOptions) emptyMetadata []
       = Some (res, tr)
   \<and> oneAtATime tr
   \<and> res = Rejected ''disk full''
   \<and> runs tr
        = map (chunkCommand sampleOptions
                 (setupOutput (sampleEnv Copy videoFile (\<lambda>n. Ended)) sampleOptions)) [0, 1]
   \<and> signals tr = [Ended, Errored ''disk full'']"
proof -
  let ?e = "sampleEnv Copy videoFile (\<lambda>n. if n = 1 then Errored ''disk full'' else Ended)"
  let ?oc = "setupOutput (sampleEnv Copy videoFile (\<lambda>n. Ended)) sampleOptions"
  have m: "mode ?oc \<noteq> Hls"
    by (simp add: sampleEnv_setupOutput_mode)
  have nc: "numChunks sampleOptions (Num 125) = Num 3"
    by (simp add: numChunks_Num[OF sampleOptions_chunkLength])
  then have fin: "numChunks sampleOptions (Num 125) \<noteq> PosInf"
    by simp
  from C7_sequential_and_abort[OF m fin, of ?e emptyMetadata "[]"]
  obtain res tr where r: "processChunks ?e sampleOptions (Num 125) ?oc emptyMetadata [] = Some (res, tr)"
    "oneAtATime tr"
    "(res = Resolved \<and> (\<forall>j<3. ffmpeg ?e j (chunkCommand sampleOptions ?oc j) = Ended))
     \<or> (\<exists>m msg. m < 3 \<and> res = Rejected msg
          \<and> (\<forall>j<m. ffmpeg ?e j (chunkCommand sampleOptions ?oc j) = Ended)
          \<and> ffmpeg ?e m (chunkCommand sampleOptions ?oc m) = Errored msg
          \<and> runs tr = map (chunkCommand sampleOptions ?oc) [0..<Suc m]
          \<and> signals tr = replicate m Ended @ [Errored msg])"
    unfolding nc by auto
  from r(3) have "res = Rejected ''disk full''
     \<and> runs tr = map (chunkCommand sampleOptions ?oc) [0, 1]
     \<and> signals tr = [Ended, Errored ''disk full'']"
  proof
    assume "res = Resolved \<and> (\<forall>j<3. ffmpeg ?e j (chunkCommand sampleOptions ?oc j) = Ended)"
    then have "ffmpeg ?e 1 (chunkCommand sampleOptions ?oc 1) = Ended" by simp
    then show ?thesis by (simp add: sampleEnv_def)
  next
    assume "\<exists>m msg. m < 3 \<and> res = Rejected msg
          \<and> (\<forall>j<m. ffmpeg ?e j (chunkCommand sampleOptions ?oc j) = Ended)
          \<and> ffmpeg ?e m (chunkCommand sampleOptions ?oc m) = Errored msg
          \<and> runs tr = map (chunkCommand sampleOptions ?oc) [0..<Suc m]
          \<and> signals tr = replicate m Ended @ [Errored msg]"
    then obtain m msg where a: "m < 3" "res = Rejected msg"
      "\<forall>j<m. ffmpeg ?e j (chunkCommand sampleOptions ?oc j) = Ended"
      "ffmpeg ?e m (chunkCommand sampleOptions ?oc m) = Errored msg"
      "runs tr = map (chunkCommand sampleOptions ?oc) [0..<Suc m]"
      "signals tr = replicate m Ended @ [Errored msg]"
      by blast
    from a(4) have m1: "m = 1" and msg: "msg = ''disk full''"
      by (simp_all add: sampleEnv_def split: if_splits)
    show ?thesis
      using a(2,5,6) unfolding m1 msg by (simp add: upt_rec)
  qed
  with r(1,2) show ?thesis by blast
qed

section \<open>Output file names\<close>

lemma digit_cases:
  "d < 10 \<Longrightarrow> d = 0 \<or> d = 1 \<or> d = 2 \<or> d = 3 \<or> d = 4 \<or> d = 5 \<or> d = 6 \<or> d = 7 \<or> d = 8 \<or> d = (9 :: nat)"
  by arith

lemma digitChar_isDigit: "d < 10 \<Longrightarrow> isDigit (digitChar d)"
  using digit_cases[of d] by (auto simp: isDigit_def digitChar_def)

lemma digitVal_digitChar: "d < 10 \<Longrightarrow> digitVal (digitChar d) = d"
  using digit_cases[of d] by (auto simp: digitVal_def digitChar_def)

lemma digitsVal_snoc: "digitsVal (ds @ [c]) = 10 * digitsVal ds + digitVal c"
  by (simp add: digitsVal_def)

lemma decimal_digits: "list_all isDigit (decimal n)"
proof (induction n rule: decimal.induct)
  case (1 n)
  show ?case
  proof (cases "n < 10")
    case True
    then show ?thesis
      by (subst decimal.simps) (simp add: digitChar_isDigit)
  next
    case False
    with 1 show ?thesis
      by (subst decimal.simps) (simp add: digitChar_isDigit)
  qed
qed

lemma digitsVal_decimal: "digitsVal (decimal n) = n"
proof (induction n rule: decimal.induct)
  case (1 n)
  show ?case
  proof (cases "n < 10")
    case True
    then show ?thesis
      by (subst decimal.simps) (simp add: digitsVal_def digitVal_digitChar)
  next
    case False
    with 1 have "digitsVal (decimal (n div 10)) = n div 10"
      by simp
    with False show ?thesis
      by (subst decimal.simps) (simp add: digitsVal_snoc digitVal_digitChar)
  qed
qed

lemma length_decimal_1: "n < 10 \<Longrightarrow> length (decimal n) = 1"
  by (subst decimal.simps) simp

lemma length_decimal_step: "\<not> n < 10 \<Longrightarrow> length (decimal n) = Suc (length (decimal (n div 10)))"
  by (subst decimal.simps) simp

lemma length_decimal_le3: "n < 1000 \<Longrightarrow> length (decimal n) \<le> 3"
proof (cases "n < 10")
  case True
  then show ?thesis by (simp add: length_decimal_1)
next
  case False
  assume n: "n < 1000"
  show ?thesis
  proof (cases "n div 10 < 10")
    case True
    with False show ?thesis
      by (simp add: length_decimal_step length_decimal_1)
  next
    case nn: False
    from n have "n div 10 div 10 < 10" by simp
    with False nn show ?thesis
      by (simp add: length_decimal_step length_decimal_1)
  qed
qed

lemma digitsVal_zeros: "digitsVal (replicate k (CHR ''0'') @ ds) = digitsVal ds"
  by (induction k) (simp_all add: digitsVal_def digitVal_def)

text \<open>
  C9 (as amended). The output file of the chunk with index \<open>i\<close> is named
  \<open>{prefix}_{NNN}.{ext}\<close>, where \<open>NNN\<close> is a string of decimal digits that denotes
  \<open>i + 1\<close> and is padded with zeros to at least three digits: exactly three for
  \<open>i < 999\<close>, and the unpadded digits of \<open>i + 1\<close> when those are more than three. The
  names start at \<open>{prefix}_001.{ext}\<close>, and the number goes up by one per chunk.
\<close>

theorem C9_output_filename:
  "\<exists>nnn. outputFilename opts oc i = filePrefix opts @ ''_'' @ nnn @ ''.'' @ extension oc
     \<and> list_all isDigit nnn
     \<and> digitsVal nnn = i + 1
     \<and> length nnn = max 3 (length (decimal (i + 1)))
     \<and> (i < 999 \<longrightarrow> length nnn = 3)
     \<and> (3 < length (decimal (i + 1)) \<longrightarrow> nnn = decimal (i + 1))
     \<and> (i = 0 \<longrightarrow> nnn = ''001'')"
proof -
  let ?nnn = "padStart 3 (CHR ''0'') (decimal (i + 1))"
  have name: "outputFilename opts oc i = filePrefix opts @ ''_'' @ ?nnn @ ''.'' @ extension oc"
    by (simp add: outputFilename_def)
  have zero: "isDigit (CHR ''0'')"
    by (simp add: isDigit_def)
  have digits: "list_all isDigit ?nnn"
    using decimal_digits[of "i + 1"] zero by (auto simp: padStart_def list_all_iff)
  have val: "digitsVal ?nnn = i + 1"
    by (simp add: padStart_def digitsVal_zeros digitsVal_decimal)
  have len: "length ?nnn = max 3 (length (decimal (i + 1)))"
    by (simp add: padStart_def)
  have short: "i < 999 \<longrightarrow> length ?nnn = 3"
  proof
    assume "i < 999"
    then have "length (decimal (i + 1)) \<le> 3"
      by (simp add: length_decimal_le3)
    then show "length ?nnn = 3"
      by (simp add: padStart_def)
  qed
  have long: "3 < length (decimal (i + 1)) \<longrightarrow> ?nnn = decimal (i + 1)"
    by (simp add: padStart_def)
  have first: "i = 0 \<longrightarrow> ?nnn = ''001''"
    by (simp add: padStart_def decimal.simps digitChar_def numeral_2_eq_2)
  from name digits val len short long first show ?thesis
    by blast
qed

theorem C9_output_filename_witness:
  "outputFilename sampleOptions (setupOutput (sampleEnv Copy videoFile (\<lambda>n. Ended)) sampleOptions) 41
     = ''lesson_042.mp4''
   \<and> (\<exists>nnn. ''lesson_042.mp4'' = ''lesson'' @ ''_'' @ nnn @ ''.'' @ ''mp4''
         \<and> digitsVal nnn = 41 + 1 \<and> length nnn = 3)"
proof -
  let ?oc = "setupOutput (sampleEnv Copy videoFile (\<lambda>n. Ended)) sampleOptions"
  have ext: "extension ?oc = ''mp4''"
    by (simp add: setupOutput_def sampleEnv_def Let_def js_or_str_def toLowerCase_def)
  have pre: "filePrefix sampleOptions = ''lesson''"
    by (simp add: filePrefix_def sampleOptions_def)
  have name: "outputFilename sampleOptions ?oc 41 = ''lesson_042.mp4''"
    by (simp add: outputFilename_def ext pre padStart_def decimal.simps digitChar_def)
  from C9_output_filename[of sampleOptions ?oc 41]
  obtain nnn where "outputFilename sampleOptions ?oc 41
        = filePrefix sampleOptions @ ''_'' @ nnn @ ''.'' @ extension ?oc"
    "digitsVal nnn = 41 + 1" "length nnn = 3"
    by auto
  then show ?thesis
    unfolding name ext pre by blast
qed

theorem C9_chunk_1000_has_four_digits:
  "outputFilename sampleOptions (setupOutput (sampleEnv Copy videoFile (\<lambda>n. Ended)) sampleOptions) 999
     = ''lesson_1000.mp4''
   \<and> length (padStart 3 (CHR ''0'') (decimal (999 + 1))) \<noteq> 3"
proof -
  let ?oc = "setupOutput (sampleEnv Copy videoFile (\<lambda>n. Ended)) sampleOptions"
  have ext: "extension ?oc = ''mp4''"
    by (simp add: setupOutput_def sampleEnv_def Let_def js_or_str_def toLowerCase_def)
  have pre: "filePrefix sampleOptions = ''lesson''"
    by (simp add: filePrefix_def sampleOptions_def)
  show ?thesis
    by (simp add: outputFilename_def ext pre padStart_def decimal.simps digitChar_def)
qed

section \<open>Validation and the whole run\<close>

lemma validateInput_passes:
  assumes "inputFile opts \<noteq> []" and "existsSync e [inputFile opts]"
    and "\<not> js_le (chunkLength opts) (Num 0)"
  shows "validateInput e opts [] =
           (None,
            if qualityPreset opts \<notin> set validPresets
            then [Log Warning (''Invalid quality preset: '' @ quoted (qualityPreset opts)
                                @ ''. Using '' @ quoted ''fast'' @ '' instead.'')]
            else [])"
  using assms by (simp add: validateInput_def)

lemma runs_createOutputDirectory: "runs (createOutputDirectory e opts tr) = runs tr"
  by (simp add: createOutputDirectory_def Let_def runs_append)

lemma signals_createOutputDirectory: "signals (createOutputDirectory e opts tr) = signals tr"
  by (simp add: createOutputDirectory_def Let_def signals_append)

lemma run_processing:
  assumes "validateInput e opts [] = (None, w)"
    and "getVideoMetadata e (inputFile opts) = Inr md"
    and "duration md = Some d" and "js_truthy d"
  shows "run e opts =
           (case processChunks e opts d (selectOutputConfig e opts) md
                   (createOutputDirectory e opts w) of
              None \<Rightarrow> None
            | Some (Resolved, tr1) \<Rightarrow> Some (0, tr1)
            | Some (Rejected msg, tr1) \<Rightarrow> Some (handleError msg tr1))"
  using assms by (simp add: run_def Let_def)

text \<open>
  C8. Whenever the chunk length read from the command line is a number \<open>c \<le> 0\<close>, the
  run ends in \<open>validateInput\<close>: the process exits with code 1 after one error line, and
  nothing else happens (no directory, no file, no invocation). With an existing input
  file the error line is the one about the chunk length.
\<close>

theorem C8_nonpositive_chunk_length:
  assumes "chunkLength opts = Num c" and "c \<le> 0"
  shows "\<exists>msg. validateInput e opts [] = (Some 1, [Log Error msg, Exit 1])
     \<and> run e opts = Some (1, [Log Error msg, Exit 1])
     \<and> runs [Log Error msg, Exit 1] = []
     \<and> (inputFile opts \<noteq> [] \<and> existsSync e [inputFile opts]
          \<longrightarrow> msg = ''Chunk length must be greater than 0 seconds.'')"
proof -
  have le: "js_le (chunkLength opts) (Num 0)"
    using assms by simp
  have "\<exists>msg. validateInput e opts [] = (Some 1, [Log Error msg, Exit 1])
     \<and> (inputFile opts \<noteq> [] \<and> existsSync e [inputFile opts]
          \<longrightarrow> msg = ''Chunk length must be greater than 0 seconds.'')"
  proof (cases "inputFile opts = []")
    case True
    then show ?thesis by (simp add: validateInput_def)
  next
    case nonempty: False
    show ?thesis
    proof (cases "existsSync e [inputFile opts]")
      case True
      with nonempty le show ?thesis by (simp add: validateInput_def)
    next
      case False
      with nonempty show ?thesis by (simp add: validateInput_def)
    qed
  qed
  then obtain msg where v: "validateInput e opts [] = (Some 1, [Log Error msg, Exit 1])"
    and m: "inputFile opts \<noteq> [] \<and> existsSync e [inputFile opts]
          \<longrightarrow> msg = ''Chunk length must be greater than 0 seconds.''"
    by blast
  from v have "run e opts = Some (1, [Log Error msg, Exit 1])"
    by (simp add: run_def)
  with v m show ?thesis by auto
qed

theorem C8_nonpositive_chunk_length_witness:
  "chunkLength (sampleOptions\<lparr>length_opt := ''-5''\<rparr>) = Num (- 5) \<and> (- 5 :: real) \<le> 0
   \<and> run (sampleEnv Copy videoFile (\<lambda>n. Ended)) (sampleOptions\<lparr>length_opt := ''-5''\<rparr>)
       = Some (1, [Log Error ''Chunk length must be greater than 0 seconds.'', Exit 1])"
proof -
  let ?o = "sampleOptions\<lparr>length_opt := ''-5''\<rparr>"
  let ?e = "sampleEnv Copy videoFile (\<lambda>n. Ended)"
  have c: "chunkLength ?o = Num (- 5)"
    by (simp add: chunkLength_def sampleOptions_def parseInt_def isStrWhiteSpace_def isDigit_def
        digitsVal_def digitVal_def Let_def)
  have f: "inputFile ?o \<noteq> [] \<and> existsSync ?e [inputFile ?o]"
    by (simp add: inputFile_def sampleOptions_def sampleEnv_def)
  from C8_nonpositive_chunk_length[OF c, of ?e] f
  have "run ?e ?o = Some (1, [Log Error ''Chunk length must be greater than 0 seconds.'', Exit 1])"
    by auto
  with c show ?thesis by simp
qed

lemma js_div_NaN: "js_div d NaN = NaN"
  by (cases d) simp_all

text \<open>
  C10. When \<open>parseInt\<close> finds no number in the value of \<open>--length\<close> (as for \<open>abc\<close>),
  the chunk length is \<open>NaN\<close>; \<open>validateInput\<close> does not reject it and returns. With an
  existing input file, a standard mode and a probed duration, the chunk count is \<open>NaN\<close>,
  the loop runs no iteration, and the run ends with exit code 0 having started no
  invocation and written nothing but the metadata file.
\<close>

theorem C10_unparsable_length:
  assumes "parseInt (length_opt opts) = NaN"
    and "inputFile opts \<noteq> []" and "existsSync e [inputFile opts]"
    and "mode (selectOutputConfig e opts) \<noteq> Hls"
    and "getVideoMetadata e (inputFile opts) = Inr md"
    and "duration md = Some d" and "js_truthy d"
  shows "parseInt ''abc'' = NaN
     \<and> chunkLength opts = NaN
     \<and> \<not> js_le (chunkLength opts) (Num 0)
     \<and> fst (validateInput e opts []) = None
     \<and> numChunks opts d = NaN
     \<and> chunkLoop e opts (selectOutputConfig e opts) (numChunks opts d) 0 pre = Some (Resolved, pre)
     \<and> (\<exists>tr. run e opts = Some (0, tr)
           \<and> runs tr = []
           \<and> (\<forall>p b. WriteFile p b \<in> set tr \<longrightarrow> p = [outputDir opts, ''ielts2go_metadata.json'']))"
proof -
  have abc: "parseInt ''abc'' = NaN"
    by (simp add: parseInt_def isStrWhiteSpace_def isDigit_def Let_def)
  have cl: "chunkLength opts = NaN"
    using assms(1) by (simp add: chunkLength_def)
  then have nle: "\<not> js_le (chunkLength opts) (Num 0)"
    by simp
  let ?w = "if qualityPreset opts \<notin> set validPresets
            then [Log Warning (''Invalid quality preset: '' @ quoted (qualityPreset opts)
                                @ ''. Using '' @ quoted ''fast'' @ '' instead.'')]
            else []"
  have v: "validateInput e opts [] = (None, ?w)"
    by (rule validateInput_passes[OF assms(2,3) nle])
  have nc: "numChunks opts d = NaN"
    by (simp add: numChunks_def cl js_div_NaN)
  have loop: "chunkLoop e opts oc NaN 0 t = Some (Resolved, t)" for oc t
    by (subst chunkLoop.simps) simp
  let ?tr = "createOutputDirectory e opts ?w"
  have pc: "processChunks e opts d (selectOutputConfig e opts) md ?tr = Some (Resolved, ?tr)"
    using assms(4) by (simp add: processChunks_def nc loop)
  have r: "run e opts = Some (0, ?tr)"
    using run_processing[OF v assms(5,6,7)] pc by simp
  have nr: "runs ?tr = []"
    by (simp add: runs_createOutputDirectory)
  have wf: "\<forall>p b. WriteFile p b \<in> set ?tr \<longrightarrow> p = [outputDir opts, ''ielts2go_metadata.json'']"
    by (auto simp: createOutputDirectory_def Let_def)
  from abc cl nle v nc loop r nr wf show ?thesis
    by (simp del: set_append)
qed

theorem C10_unparsable_length_witness:
  "parseInt (length_opt (sampleOptions\<lparr>length_opt := ''abc''\<rparr>)) = NaN
   \<and> run (sampleEnv Copy videoFile (\<lambda>n. Errored ''never called''))
         (sampleOptions\<lparr>length_opt := ''abc''\<rparr>)
       = Some (0, [Mkdir [''out''],
                   WriteFile [''out'', ''ielts2go_metadata.json'']
                     (MetadataJson NaN ''fast'' ''out'')])"
proof -
  let ?o = "sampleOptions\<lparr>length_opt := ''abc''\<rparr>"
  let ?e = "sampleEnv Copy videoFile (\<lambda>n. Errored ''never called'')"
  have p: "parseInt (length_opt ?o) = NaN"
    by (simp add: parseInt_def isStrWhiteSpace_def isDigit_def Let_def)
  have f: "inputFile ?o \<noteq> []" "existsSync ?e [inputFile ?o]"
    by (simp_all add: inputFile_def sampleOptions_def sampleEnv_def)
  have m: "mode (selectOutputConfig ?e ?o) \<noteq> Hls"
    by (simp add: selectOutputConfig_def sampleOptions_def sampleEnv_setupOutput_mode)
  obtain md where md: "getVideoMetadata ?e (inputFile ?o) = Inr md" "duration md = Some (Num 125)"
    by (simp add: getVideoMetadata_def sampleEnv_def videoFile_def Let_def)
  have t: "js_truthy (Num 125)"
    by simp
  from C10_unparsable_length[OF p f m md t, of "[]"]
  obtain tr where tr: "run ?e ?o = Some (0, tr)"
    by blast
  have "run ?e ?o = Some (0, [Mkdir [''out''],
                   WriteFile [''out'', ''ielts2go_metadata.json'']
                     (MetadataJson NaN ''fast'' ''out'')])"
    using run_processing[OF validateInput_passes[OF f] md t] p m
    by (simp add: processChunks_def numChunks_def chunkLength_def js_div_NaN chunkLoop.simps
        createOutputDirectory_def Let_def sampleEnv_def sampleOptions_def qualityPreset_def
        validPresets_def outputDir_def)
  with p tr show ?thesis by simp
qed

section \<open>HLS mode\<close>

lemma runs_ensureHlsDir: "runs (pre @ ensureHlsDir e opts) = runs pre"
  by (simp add: ensureHlsDir_def runs_append)

text \<open>What \<open>processHLSStream\<close> does, by the signals of the primary and of the fallback invocation.\<close>

lemma processHLSStream_cases:
  assumes "playlistType oc = Some pt"
  shows "processHLSStream e opts d oc md pre =
     (case ffmpeg e (length (runs pre)) (hlsCommand opts oc pt) of
        Ended \<Rightarrow>
          (Resolved,
           pre @ ensureHlsDir e opts @ [Run (hlsCommand opts oc pt), Signal Ended]
               @ artifacts opts md)
      | Errored m1 \<Rightarrow>
          (case ffmpeg e (Suc (length (runs pre))) (fallbackCommand opts) of
             Ended \<Rightarrow>
               (Resolved,
                pre @ ensureHlsDir e opts @ [Run (hlsCommand opts oc pt), Signal (Errored m1)]
                    @ primaryFailure m1 @ [Run (fallbackCommand opts), Signal Ended]
                    @ artifacts opts emptyMetadata)
           | Errored m2 \<Rightarrow>
               (Rejected m2,
                pre @ ensureHlsDir e opts @ [Run (hlsCommand opts oc pt), Signal (Errored m1)]
                    @ primaryFailure m1 @ [Run (fallbackCommand opts), Signal (Errored m2)]
                    @ fallbackFailure m2)))"
proof -
  let ?pre = "if \<not> existsSync e (hlsDir opts) then pre @ [Mkdir (hlsDir opts)] else pre"
  let ?p = "hlsCommand opts oc pt"
  have p: "?pre = pre @ ensureHlsDir e opts"
    by (simp add: ensureHlsDir_def)
  have r0: "runs (ensureHlsDir e opts) = []"
    by (simp add: ensureHlsDir_def)
  have unfold1: "processHLSStream e opts d oc md pre =
     (case invoke e ?p (pre @ ensureHlsDir e opts) of
        (Ended, tr1) \<Rightarrow> (Resolved, createMasterPlaylist opts (hlsDir opts) md tr1)
      | (Errored msg, tr1) \<Rightarrow>
          tryLastResortHLSConversion e opts (inputFile opts) (hlsPlaylistPath opts)
            (hlsSegmentPattern opts) (tr1 @ primaryFailure msg))"
    using assms by (simp only: processHLSStream_def Let_def option.case p primaryFailure_def)
  have art: "createMasterPlaylist opts h m t = t @ artifacts opts m" for h m t
    by (simp add: createMasterPlaylist_def createHLSPlayer_def artifacts_def)
  show ?thesis
  proof (cases "ffmpeg e (length (runs pre)) ?p")
    case Ended
    then show ?thesis
      by (simp add: unfold1 invoke_eq runs_append r0 art)
  next
    case (Errored m1)
    show ?thesis
    proof (cases "ffmpeg e (Suc (length (runs pre))) (fallbackCommand opts)")
      case Ended
      with Errored show ?thesis
        by (simp add: unfold1 invoke_eq runs_append r0 art tryLastResortHLSConversion_def
            fallbackCommand_def primaryFailure_def)
    next
      case fb: (Errored m2)
      with Errored show ?thesis
        by (simp add: unfold1 invoke_eq runs_append r0 art tryLastResortHLSConversion_def
            fallbackCommand_def primaryFailure_def fallbackFailure_def)
    qed
  qed
qed

lemma fallbackCommand_options:
  "outputOptions (fallbackCommand opts) =
     [S ''-c:v'', S ''libx264'', S ''-preset'', S ''ultrafast'', S ''-c:a'', S ''aac'',
      S ''-hls_time'', N (Num 4), S ''-hls_segment_filename'', P (hlsSegmentPattern opts),
      S ''-f'', S ''hls'']"
  by (simp add: fallbackCommand_def lastResortCommand_def)

text \<open>
  C3. When the primary HLS invocation signals an error, the invocations of the run are
  exactly two: the primary one and one fallback. The fallback's options are the fixed
  list with codec \<open>libx264\<close>, preset \<open>ultrafast\<close>, audio codec \<open>aac\<close>, a segment length
  of 4 and no playlist type. If the fallback ends, the function resolves; if it signals
  an error too, the function rejects with that error, and nothing is invoked after it.
\<close>

theorem C3_single_fallback:
  assumes "mode oc = Hls" and "playlistType oc = Some pt"
    and "ffmpeg e (length (runs pre)) (hlsCommand opts oc pt) = Errored msg1"
  shows "\<exists>res tr.
     processChunks e opts d oc md pre = Some (res, pre @ tr)
   \<and> runs tr = [hlsCommand opts oc pt, fallbackCommand opts]
   \<and> signals tr = [Errored msg1, ffmpeg e (Suc (length (runs pre))) (fallbackCommand opts)]
   \<and> source (fallbackCommand opts) = inputFile opts
   \<and> target (fallbackCommand opts) = hlsPlaylistPath opts
   \<and> outputOptions (fallbackCommand opts) =
        [S ''-c:v'', S ''libx264'', S ''-preset'', S ''ultrafast'', S ''-c:a'', S ''aac'',
         S ''-hls_time'', N (Num 4), S ''-hls_segment_filename'', P (hlsSegmentPattern opts),
         S ''-f'', S ''hls'']
   \<and> S ''-hls_playlist_type'' \<notin> set (outputOptions (fallbackCommand opts))
   \<and> (case ffmpeg e (Suc (length (runs pre))) (fallbackCommand opts) of
         Ended \<Rightarrow> res = Resolved
       | Errored msg2 \<Rightarrow> res = Rejected msg2 \<and> \<not> written (masterPlaylistPath opts) tr)"
proof -
  let ?fb = "ffmpeg e (Suc (length (runs pre))) (fallbackCommand opts)"
  have pc: "processChunks e opts d oc md pre = Some (processHLSStream e opts d oc md pre)"
    using assms(1) by (simp add: processChunks_def)
  have st: "source (fallbackCommand opts) = inputFile opts"
    "target (fallbackCommand opts) = hlsPlaylistPath opts"
    by (simp_all add: fallbackCommand_def lastResortCommand_def)
  have no_type: "S ''-hls_playlist_type'' \<notin> set (outputOptions (fallbackCommand opts))"
    by (simp add: fallbackCommand_options)
  show ?thesis
  proof (cases ?fb)
    case Ended
    let ?tr = "ensureHlsDir e opts @ [Run (hlsCommand opts oc pt), Signal (Errored msg1)]
        @ primaryFailure msg1 @ [Run (fallbackCommand opts), Signal Ended]
        @ artifacts opts emptyMetadata"
    have "processChunks e opts d oc md pre = Some (Resolved, pre @ ?tr)"
      using pc processHLSStream_cases[OF assms(2), of e opts d md pre] assms(3) Ended by simp
    moreover have "runs ?tr = [hlsCommand opts oc pt, fallbackCommand opts]"
      by (simp add: runs_append ensureHlsDir_def primaryFailure_def artifacts_def)
    moreover have "signals ?tr = [Errored msg1, Ended]"
      by (simp add: signals_append ensureHlsDir_def primaryFailure_def artifacts_def)
    ultimately show ?thesis
      using st no_type fallbackCommand_options[of opts] Ended by auto
  next
    case (Errored msg2)
    let ?tr = "ensureHlsDir e opts @ [Run (hlsCommand opts oc pt), Signal (Errored msg1)]
        @ primaryFailure msg1 @ [Run (fallbackCommand opts), Signal (Errored msg2)]
        @ fallbackFailure msg2"
    have "processChunks e opts d oc md pre = Some (Rejected msg2, pre @ ?tr)"
      using pc processHLSStream_cases[OF assms(2), of e opts d md pre] assms(3) Errored by simp
    moreover have "runs ?tr = [hlsCommand opts oc pt, fallbackCommand opts]"
      by (simp add: runs_append ensureHlsDir_def primaryFailure_def fallbackFailure_def)
    moreover have "signals ?tr = [Errored msg1, Errored msg2]"
      by (simp add: signals_append ensureHlsDir_def primaryFailure_def fallbackFailure_def)
    moreover have "\<not> written (masterPlaylistPath opts) ?tr"
      by (simp add: written_def ensureHlsDir_def primaryFailure_def fallbackFailure_def)
    ultimately show ?thesis
      using st no_type fallbackCommand_options[of opts] Errored by auto
  qed
qed

lemma sample_hls_config:
  "mode (cliOutputConfig sampleOptions) = Hls"
  "playlistType (cliOutputConfig sampleOptions) = Some ''vod''"
  by (simp_all add: cliOutputConfig_def sampleOptions_def js_or_str_def)

theorem C3_single_fallback_witness:
  "\<exists>tr. processChunks (sampleEnv Hls videoFile (\<lambda>n. Errored ''no encoder''))
           sampleOptions (Num 125) (cliOutputConfig sampleOptions) emptyMetadata []
         = Some (Rejected ''no encoder'', tr)
     \<and> runs tr = [hlsCommand sampleOptions (cliOutputConfig sampleOptions) ''vod'',
                  fallbackCommand sampleOptions]
     \<and> signals tr = [Errored ''no encoder'', Errored ''no encoder'']"
proof -
  let ?e = "sampleEnv Hls videoFile (\<lambda>n. Errored ''no encoder'')"
  have eng: "ffmpeg ?e k c = Errored ''no encoder''" for k c
    by (simp add: sampleEnv_def)
  from C3_single_fallback[OF sample_hls_config eng, where pre = "[]" and opts = sampleOptions
      and d = "Num 125" and md = emptyMetadata]
  show ?thesis
    by (auto simp: eng)
qed

lemma written_append: "written p (xs @ ys) = (written p xs \<or> written p ys)"
  by (auto simp: written_def)

lemma master_name_not_metadata: "xs @ ''_master.m3u8'' \<noteq> ''ielts2go_metadata.json''"
proof
  assume "xs @ ''_master.m3u8'' = ''ielts2go_metadata.json''"
  then have "last (xs @ ''_master.m3u8'') = last ''ielts2go_metadata.json''"
    by (rule arg_cong)
  then show False by simp
qed

lemma createOutputDirectory_no_artifacts:
  assumes "\<forall>p b. WriteFile p b \<notin> set w"
  shows "\<not> written (masterPlaylistPath opts) (createOutputDirectory e opts w)"
    and "\<not> written (playerPath opts) (createOutputDirectory e opts w)"
  using assms master_name_not_metadata[of "filePrefix opts"]
  by (auto simp: written_def createOutputDirectory_def Let_def masterPlaylistPath_def
      playerPath_def)

lemma written_artifacts:
  "written (masterPlaylistPath opts) (artifacts opts md)"
  "written (playerPath opts) (artifacts opts md)"
  by (auto simp: written_def artifacts_def)

lemma handleError_effects:
  "fst (handleError msg tr) = 1"
  "runs (snd (handleError msg tr)) = runs tr"
  "signals (snd (handleError msg tr)) = signals tr"
  "written p (snd (handleError msg tr)) = written p tr"
  "ConsoleError msg \<in> set (snd (handleError msg tr))"
  "last (snd (handleError msg tr)) = Exit 1"
  by (auto simp: handleError_def runs_append signals_append written_def)

text \<open>
  C4. In a run in HLS mode that gets as far as processing (valid input, a probed
  duration), the master playlist is written if and only if some invocation ended without
  error, and so is the player page; the exit code is 0 in exactly that case. When the
  primary invocation signals an error and the fallback ends, the run exits with code 0
  after exactly two invocations, both files written; when both signal an error, the run
  reports the fallback's error, exits with code 1 after exactly two invocations, and
  writes neither file.
\<close>

theorem C4_artifacts_iff_success:
  assumes "inputFile opts \<noteq> []" and "existsSync e [inputFile opts]"
    and "\<not> js_le (chunkLength opts) (Num 0)"
    and "mode (selectOutputConfig e opts) = Hls"
    and "playlistType (selectOutputConfig e opts) = Some pt"
    and "getVideoMetadata e (inputFile opts) = Inr md"
    and "duration md = Some d" and "js_truthy d"
  shows "\<exists>code tr. run e opts = Some (code, tr)
     \<and> (written (masterPlaylistPath opts) tr \<longleftrightarrow> Ended \<in> set (signals tr))
     \<and> (written (playerPath opts) tr \<longleftrightarrow> Ended \<in> set (signals tr))
     \<and> (code = 0 \<longleftrightarrow> Ended \<in> set (signals tr))
     \<and> (\<forall>m1. ffmpeg e 0 (hlsCommand opts (selectOutputConfig e opts) pt) = Errored m1
             \<and> ffmpeg e 1 (fallbackCommand opts) = Ended
           \<longrightarrow> code = 0 \<and> length (runs tr) = 2
               \<and> written (masterPlaylistPath opts) tr \<and> written (playerPath opts) tr)
     \<and> (\<forall>m1 m2. ffmpeg e 0 (hlsCommand opts (selectOutputConfig e opts) pt) = Errored m1
             \<and> ffmpeg e 1 (fallbackCommand opts) = Errored m2
           \<longrightarrow> code = 1 \<and> length (runs tr) = 2
               \<and> \<not> written (masterPlaylistPath opts) tr \<and> \<not> written (playerPath opts) tr
               \<and> ConsoleError m2 \<in> set tr \<and> last tr = Exit 1)"
proof -
  let ?oc = "selectOutputConfig e opts"
  let ?p = "hlsCommand opts ?oc pt"
  let ?f = "fallbackCommand opts"
  define w where "w = (if qualityPreset opts \<notin> set validPresets
            then [Log Warning (''Invalid quality preset: '' @ quoted (qualityPreset opts)
                                @ ''. Using '' @ quoted ''fast'' @ '' instead.'')]
            else [])"
  define pre where "pre = createOutputDirectory e opts w"
  define dir where "dir = ensureHlsDir e opts"
  have v: "validateInput e opts [] = (None, w)"
    unfolding w_def by (rule validateInput_passes[OF assms(1,2,3)])
  have now: "\<forall>p b. WriteFile p b \<notin> set w"
    by (simp add: w_def)
  have pre: "runs pre = []" "signals pre = []"
    "\<not> written (masterPlaylistPath opts) pre" "\<not> written (playerPath opts) pre"
    using createOutputDirectory_no_artifacts[OF now, of opts e]
    by (simp_all add: pre_def runs_createOutputDirectory signals_createOutputDirectory w_def)
  have r: "run e opts =
           (case processHLSStream e opts d ?oc md pre of
              (Resolved, tr1) \<Rightarrow> Some (0, tr1)
            | (Rejected msg, tr1) \<Rightarrow> Some (handleError msg tr1))"
    using run_processing[OF v assms(6,7,8)] assms(4) by (simp add: processChunks_def pre_def)
  note hls = processHLSStream_cases[OF assms(5), of e opts d md pre, folded dir_def]
  have dir: "runs dir = []" "signals dir = []" "\<not> written q dir" for q
    by (simp_all add: dir_def ensureHlsDir_def written_def)
  have pf: "runs (primaryFailure m) = []" "signals (primaryFailure m) = []"
    "\<not> written q (primaryFailure m)" for q m
    by (simp_all add: primaryFailure_def written_def)
  have ff: "runs (fallbackFailure m) = []" "signals (fallbackFailure m) = []"
    "\<not> written q (fallbackFailure m)" for q m
    by (simp_all add: fallbackFailure_def written_def)
  have ar: "runs (artifacts opts m) = []" "signals (artifacts opts m) = []" for m
    by (simp_all add: artifacts_def)
  have ev: "written q (Run c # Signal x # rest) = written q rest" for q c x rest
    by (simp add: written_def)
  note facts = runs_append signals_append written_append pre dir pf ff ar ev written_artifacts
  show ?thesis
  proof (cases "ffmpeg e 0 ?p")
    case Ended
    let ?tr = "pre @ dir @ [Run ?p, Signal Ended] @ artifacts opts md"
    have "run e opts = Some (0, ?tr)"
      using r hls Ended pre(1) by simp
    moreover have "written (masterPlaylistPath opts) ?tr" "written (playerPath opts) ?tr"
      by (simp_all add: facts)
    moreover have "Ended \<in> set (signals ?tr)"
      by (simp add: facts)
    ultimately show ?thesis
      using Ended by auto
  next
    case (Errored m1)
    show ?thesis
    proof (cases "ffmpeg e 1 ?f")
      case Ended
      let ?tr = "pre @ dir @ [Run ?p, Signal (Errored m1)]
        @ primaryFailure m1 @ [Run ?f, Signal Ended] @ artifacts opts emptyMetadata"
      have "run e opts = Some (0, ?tr)"
        using r hls Errored Ended pre(1) by simp
      moreover have "written (masterPlaylistPath opts) ?tr" "written (playerPath opts) ?tr"
        by (simp_all add: facts)
      moreover have "Ended \<in> set (signals ?tr)"
        by (simp add: facts)
      moreover have "length (runs ?tr) = 2"
        by (simp add: facts)
      ultimately show ?thesis
        using Errored Ended by auto
    next
      case fb: (Errored m2)
      let ?tr = "pre @ dir @ [Run ?p, Signal (Errored m1)]
        @ primaryFailure m1 @ [Run ?f, Signal (Errored m2)] @ fallbackFailure m2"
      have run_eq: "run e opts = Some (handleError m2 ?tr)"
        using r hls Errored fb pre(1) by simp
      have nm: "\<not> written (masterPlaylistPath opts) ?tr" "\<not> written (playerPath opts) ?tr"
        by (simp_all add: facts)
      have ns: "Ended \<notin> set (signals ?tr)"
        by (simp add: facts)
      have nr: "length (runs ?tr) = 2"
        by (simp add: facts)
      obtain code tr where h: "handleError m2 ?tr = (code, tr)"
        by (cases "handleError m2 ?tr") blast
      from handleError_effects[where msg = m2 and tr = ?tr] nm ns nr
      have "code = 1" "length (runs tr) = 2" "Ended \<notin> set (signals tr)"
        "\<not> written (masterPlaylistPath opts) tr" "\<not> written (playerPath opts) tr"
        "ConsoleError m2 \<in> set tr" "last tr = Exit 1"
        unfolding h by simp_all
      with run_eq h Errored fb show ?thesis
        by auto
    qed
  qed
qed

lemma sample_hls_run_facts:
  "inputFile (sampleOptions\<lparr>hls := True\<rparr>) \<noteq> []"
  "existsSync (sampleEnv m f eng) [inputFile (sampleOptions\<lparr>hls := True\<rparr>)]"
  "\<not> js_le (chunkLength (sampleOptions\<lparr>hls := True\<rparr>)) (Num 0)"
  "mode (selectOutputConfig (sampleEnv m f eng) (sampleOptions\<lparr>hls := True\<rparr>)) = Hls"
  "playlistType (selectOutputConfig (sampleEnv m f eng) (sampleOptions\<lparr>hls := True\<rparr>)) = Some ''vod''"
  by (simp_all add: inputFile_def sampleOptions_def sampleEnv_def selectOutputConfig_def
      cliOutputConfig_def js_or_str_def chunkLength_def parseInt_def isStrWhiteSpace_def
      isDigit_def digitsVal_def digitVal_def Let_def)

lemma sample_video_metadata:
  "getVideoMetadata (sampleEnv m videoFile eng) (inputFile opts) =
     Inr \<lparr>duration = Some (Num 125), hasVideo = Some True, hasAudio = Some True,
          videoCodec = Some ''h264'', audioCodec = Some ''aac'',
          resolution = Some ''1920x1080'', bitrate = None\<rparr>"
  by (simp add: getVideoMetadata_def sampleEnv_def videoFile_def Let_def dimension_def
      decimal.simps digitChar_def)

lemma sample_audio_metadata:
  "getVideoMetadata (sampleEnv m audioFile eng) (inputFile opts) =
     Inr \<lparr>duration = Some (Num 125), hasVideo = Some False, hasAudio = Some True,
          videoCodec = None, audioCodec = Some ''aac'',
          resolution = Some ''Unknown'', bitrate = None\<rparr>"
  by (simp add: getVideoMetadata_def sampleEnv_def audioFile_def Let_def)

theorem C4_artifacts_iff_success_witness:
  "\<exists>tr. run (sampleEnv Hls videoFile (\<lambda>n. if n = 0 then Errored ''bad option'' else Ended))
           (sampleOptions\<lparr>hls := True\<rparr>) = Some (0, tr)
     \<and> length (runs tr) = 2
     \<and> written (masterPlaylistPath (sampleOptions\<lparr>hls := True\<rparr>)) tr
     \<and> written (playerPath (sampleOptions\<lparr>hls := True\<rparr>)) tr"
proof -
  let ?e = "sampleEnv Hls videoFile (\<lambda>n. if n = 0 then Errored ''bad option'' else Ended)"
  let ?o = "sampleOptions\<lparr>hls := True\<rparr>"
  have d: "duration \<lparr>duration = Some (Num 125), hasVideo = Some True, hasAudio = Some True,
          videoCodec = Some ''h264'', audioCodec = Some ''aac'',
          resolution = Some ''1920x1080'', bitrate = None\<rparr> = Some (Num 125)"
    by simp
  have t: "js_truthy (Num 125)"
    by simp
  have p: "ffmpeg ?e 0 c = Errored ''bad option''" and f: "ffmpeg ?e 1 c = Ended" for c
    by (simp_all add: sampleEnv_def)
  from C4_artifacts_iff_success[OF sample_hls_run_facts sample_video_metadata d t]
  obtain code tr where r: "run ?e ?o = Some (code, tr)"
    and s: "\<forall>m1. ffmpeg ?e 0 (hlsCommand ?o (selectOutputConfig ?e ?o) ''vod'') = Errored m1
             \<and> ffmpeg ?e 1 (fallbackCommand ?o) = Ended
           \<longrightarrow> code = 0 \<and> length (runs tr) = 2
               \<and> written (masterPlaylistPath ?o) tr \<and> written (playerPath ?o) tr"
    by blast
  from s p f have "code = 0 \<and> length (runs tr) = 2
               \<and> written (masterPlaylistPath ?o) tr \<and> written (playerPath ?o) tr"
    by blast
  with r show ?thesis by blast
qed

section \<open>The master playlist\<close>

lemma masterPlaylistContent_template:
  "masterPlaylistContent opts md =
     ''#EXTM3U'' @ [CHR 0x0A]
     @ ''#EXT-X-VERSION:3'' @ [CHR 0x0A]
     @ ''#EXT-X-STREAM-INF:BANDWIDTH=2800000,RESOLUTION=''
     @ (case resolution md of
          None \<Rightarrow> ''1280x720''
        | Some r \<Rightarrow> if r = [] then ''1280x720'' else r)
     @ [CHR 0x0A]
     @ ''hls/'' @ filePrefix opts @ ''.m3u8'' @ [CHR 0x0A]"
  by (simp add: masterPlaylistContent_def newline_def js_or_undef_def js_or_str_def
      split: option.splits)

lemma sample_hls_run:
  assumes "getVideoMetadata (sampleEnv Hls f (\<lambda>n. Ended)) (inputFile (sampleOptions\<lparr>hls := True\<rparr>))
             = Inr md"
    and "duration md = Some (Num 125)"
  shows "run (sampleEnv Hls f (\<lambda>n. Ended)) (sampleOptions\<lparr>hls := True\<rparr>) =
     Some (0, [Mkdir [''out''],
               WriteFile [''out'', ''ielts2go_metadata.json''] (MetadataJson (Num 60) ''fast'' ''out''),
               Mkdir [''out'', ''hls''],
               Run (hlsCommand (sampleOptions\<lparr>hls := True\<rparr>)
                      (cliOutputConfig (sampleOptions\<lparr>hls := True\<rparr>)) ''vod''),
               Signal Ended,
               WriteFile [''out'', ''lesson_master.m3u8'']
                 (Text (masterPlaylistContent (sampleOptions\<lparr>hls := True\<rparr>) md)),
               WriteFile [''out'', ''player.html''] PlayerHtml,
               WriteFile [''out'', ''PLAYBACK.md''] PlaybackMd])"
proof -
  let ?e = "sampleEnv Hls f (\<lambda>n. Ended)"
  let ?o = "sampleOptions\<lparr>hls := True\<rparr>"
  have t: "js_truthy (Num 125)"
    by simp
  have oc: "selectOutputConfig ?e ?o = cliOutputConfig ?o"
    by (simp add: selectOutputConfig_def sampleOptions_def)
  have pt: "playlistType (cliOutputConfig ?o) = Some ''vod''"
    using sample_hls_run_facts(5)[of Hls f "\<lambda>n. Ended"] by (simp add: oc)
  have m: "mode (cliOutputConfig ?o) = Hls"
    by (simp add: cliOutputConfig_def)
  have w: "validateInput ?e ?o [] = (None, [])"
    using validateInput_passes[OF sample_hls_run_facts(1,2,3), of Hls f "\<lambda>n. Ended"]
    by (simp add: qualityPreset_def sampleOptions_def validPresets_def)
  have pre: "createOutputDirectory ?e ?o [] =
      [Mkdir [''out''],
       WriteFile [''out'', ''ielts2go_metadata.json''] (MetadataJson (Num 60) ''fast'' ''out'')]"
    by (simp add: createOutputDirectory_def Let_def sampleEnv_def outputDir_def
        qualityPreset_def sampleOptions_def chunkLength_def parseInt_def isStrWhiteSpace_def
        isDigit_def digitsVal_def digitVal_def)
  have eng: "ffmpeg ?e k c = Ended" for k c
    by (simp add: sampleEnv_def)
  have dir: "ensureHlsDir ?e ?o = [Mkdir [''out'', ''hls'']]"
    by (simp add: ensureHlsDir_def hlsDir_def sampleEnv_def outputDir_def sampleOptions_def)
  have art: "artifacts ?o md =
      [WriteFile [''out'', ''lesson_master.m3u8''] (Text (masterPlaylistContent ?o md)),
       WriteFile [''out'', ''player.html''] PlayerHtml,
       WriteFile [''out'', ''PLAYBACK.md''] PlaybackMd]"
    by (simp add: artifacts_def masterPlaylistPath_def playerPath_def outputDir_def
        filePrefix_def sampleOptions_def)
  show ?thesis
    using run_processing[OF w assms t]
    by (simp add: oc processChunks_def m processHLSStream_cases[OF pt] eng pre dir art)
qed

text \<open>
  C5. The text of the master playlist is the four-line template with the prefix and the
  resolution put in. For the prefix \<open>lesson\<close> and a source probed at 1920x1080 the run
  writes the template with that resolution. For a source without a video stream the
  probe's resolution is the string \<open>Unknown\<close>, and the run writes
  \<open>RESOLUTION=Unknown\<close>, not the default 1280x720.
\<close>

theorem C5_master_playlist_text:
  "WriteFile [''out'', ''lesson_master.m3u8'']
     (Text (''#EXTM3U'' @ [CHR 0x0A]
            @ ''#EXT-X-VERSION:3'' @ [CHR 0x0A]
            @ ''#EXT-X-STREAM-INF:BANDWIDTH=2800000,RESOLUTION=1920x1080'' @ [CHR 0x0A]
            @ ''hls/lesson.m3u8'' @ [CHR 0x0A]))
     \<in> set (snd (the (run (sampleEnv Hls videoFile (\<lambda>n. Ended)) (sampleOptions\<lparr>hls := True\<rparr>))))
   \<and> WriteFile [''out'', ''lesson_master.m3u8'']
     (Text (''#EXTM3U'' @ [CHR 0x0A]
            @ ''#EXT-X-VERSION:3'' @ [CHR 0x0A]
            @ ''#EXT-X-STREAM-INF:BANDWIDTH=2800000,RESOLUTION=Unknown'' @ [CHR 0x0A]
            @ ''hls/lesson.m3u8'' @ [CHR 0x0A]))
     \<in> set (snd (the (run (sampleEnv Hls audioFile (\<lambda>n. Ended)) (sampleOptions\<lparr>hls := True\<rparr>))))"
proof -
  have p: "filePrefix (sampleOptions\<lparr>hls := True\<rparr>) = ''lesson''"
    by (simp add: filePrefix_def sampleOptions_def)
  show ?thesis
    by (simp add: sample_hls_run[OF sample_video_metadata] sample_hls_run[OF sample_audio_metadata]
        masterPlaylistContent_template p)
qed

section \<open>The quality preset\<close>

text \<open>
  C2. With \<open>--quality turbo\<close> \<open>validateInput\<close> logs the warning that \<open>fast\<close> is used
  instead and returns; the run goes on and ends with exit code 0 when every invocation
  ends. In re-encode mode each of its invocations is given \<open>-preset turbo\<close>: the value
  of the command line, not \<open>fast\<close>.
\<close>

theorem C2_invalid_preset_reaches_encoder:
  "validateInput (sampleEnv Encode videoFile (\<lambda>n. Ended)) (sampleOptions\<lparr>quality := ''turbo''\<rparr>) []
     = (None, [Log Warning (''Invalid quality preset: '' @ [CHR 0x22] @ ''turbo'' @ [CHR 0x22]
                             @ ''. Using '' @ [CHR 0x22] @ ''fast'' @ [CHR 0x22]
                             @ '' instead.'')])
   \<and> fst (the (run (sampleEnv Encode videoFile (\<lambda>n. Ended))
                  (sampleOptions\<lparr>quality := ''turbo''\<rparr>))) = 0
   \<and> map outputOptions
        (runs (snd (the (run (sampleEnv Encode videoFile (\<lambda>n. Ended))
                           (sampleOptions\<lparr>quality := ''turbo''\<rparr>)))))
     = replicate 3
         [S ''-c:v libx264'', S ''-preset'', S ''turbo'', S ''-c:a aac'', S ''-movflags'',
          S ''+faststart'', S ''-avoid_negative_ts'', S ''make_zero'']"
proof -
  let ?e = "sampleEnv Encode videoFile (\<lambda>n. Ended)"
  let ?o = "sampleOptions\<lparr>quality := ''turbo''\<rparr>"
  let ?w = "[Log Warning (''Invalid quality preset: '' @ [CHR 0x22] @ ''turbo'' @ [CHR 0x22]
                             @ ''. Using '' @ [CHR 0x22] @ ''fast'' @ [CHR 0x22]
                             @ '' instead.'')]"
  have cl: "chunkLength ?o = Num 60"
    by (simp add: chunkLength_def sampleOptions_def parseInt_def isStrWhiteSpace_def isDigit_def
        digitsVal_def digitVal_def Let_def)
  have v: "validateInput ?e ?o [] = (None, ?w)"
    by (simp add: validateInput_def inputFile_def sampleOptions_def sampleEnv_def
        qualityPreset_def validPresets_def quoted_def chunkLength_def parseInt_def
        isStrWhiteSpace_def isDigit_def digitsVal_def digitVal_def Let_def)
  have d: "duration \<lparr>duration = Some (Num 125), hasVideo = Some True, hasAudio = Some True,
          videoCodec = Some ''h264'', audioCodec = Some ''aac'',
          resolution = Some ''1920x1080'', bitrate = None\<rparr> = Some (Num 125)"
    by simp
  have t: "js_truthy (Num 125)"
    by simp
  have m: "mode (selectOutputConfig ?e ?o) = Encode"
    by (simp add: selectOutputConfig_def sampleOptions_def setupOutput_def sampleEnv_def Let_def)
  then have nh: "mode (selectOutputConfig ?e ?o) \<noteq> Hls"
    by simp
  have nc: "numChunks ?o (Num 125) = Num 3"
    by (simp add: numChunks_Num[OF cl])
  have eng: "ffmpeg ?e k c = Ended" for k c
    by (simp add: sampleEnv_def)
  have q: "qualityPreset ?o = ''turbo''"
    by (simp add: qualityPreset_def)
  have opt: "outputOptions (chunkCommand ?o (selectOutputConfig ?e ?o) i) =
      [S ''-c:v libx264'', S ''-preset'', S ''turbo'', S ''-c:a aac'', S ''-movflags'',
       S ''+faststart'', S ''-avoid_negative_ts'', S ''make_zero'']" for i
    by (simp add: chunkCommand_def m q)
  let ?pre = "createOutputDirectory ?e ?o ?w"
  have it: "chunkIter ?e ?o oc k i tr = (Resolved, tr @ completedJobs ?o oc i k)" for oc k i tr
    by (induction k arbitrary: i tr) (simp_all add: invoke_eq eng completedJobs_0 completedJobs_Suc)
  have pc: "processChunks ?e ?o (Num 125) (selectOutputConfig ?e ?o) md ?pre =
      Some (Resolved, ?pre @ completedJobs ?o (selectOutputConfig ?e ?o) 0 3)" for md
    using processChunks_standard[OF nh, of ?o "Num 125"] by (simp add: nc it)
  have r: "run ?e ?o = Some (0, ?pre @ completedJobs ?o (selectOutputConfig ?e ?o) 0 3)"
    using run_processing[OF v sample_video_metadata d t] pc by simp
  have rs: "runs (?pre @ completedJobs ?o (selectOutputConfig ?e ?o) 0 3)
      = map (chunkCommand ?o (selectOutputConfig ?e ?o)) [0..<3]"
    by (simp add: runs_append runs_createOutputDirectory runs_completedJobs)
  have final: "map outputOptions (runs (?pre @ completedJobs ?o (selectOutputConfig ?e ?o) 0 3))
      = replicate 3
         [S ''-c:v libx264'', S ''-preset'', S ''turbo'', S ''-c:a aac'', S ''-movflags'',
          S ''+faststart'', S ''-avoid_negative_ts'', S ''make_zero'']"
    unfolding rs by (simp add: opt o_def map_replicate_const)
  show ?thesis
    unfolding r v using final by simp
qed

end
